theory Spec2Isabelle
  imports Complex_Main
begin

section \<open>Python values used by the agent and the workflow\<close>

text \<open>
  Strings are \<^typ>\<open>string\<close>. A character outside ASCII is written as its UTF-8 bytes;
  no definition below measures the length of such a string.
\<close>

definition nl :: string where
  "nl = [CHR 0x0A]"

definition apostrophe :: string where
  "apostrophe = [CHR 0x27]"

text \<open>\<^verbatim>\<open>str.startswith(p)\<close>.\<close>

definition startswith :: "string \<Rightarrow> string \<Rightarrow> bool" where
  "startswith s p = (take (length p) s = p)"

text \<open>
  \<^verbatim>\<open>str.strip()\<close>: white space is removed at both ends. The characters for which
  \<^verbatim>\<open>str.isspace\<close> holds are, in UTF-8: the ASCII codes 9 to 13 and 28 to 32 (one byte);
  U+0085 and U+00A0 (two bytes); U+1680, U+2000 to U+200A, U+2028, U+2029, U+202F, U+205F
  and U+3000 (three bytes).
\<close>

definition is_space :: "char \<Rightarrow> bool" where
  "is_space c = (let n = of_char c :: nat in (9 \<le> n \<and> n \<le> 13) \<or> (28 \<le> n \<and> n \<le> 32))"

definition is_space2 :: "char \<Rightarrow> char \<Rightarrow> bool" where
  "is_space2 a b = (a = CHR 0xC2 \<and> (b = CHR 0x85 \<or> b = CHR 0xA0))"

definition is_space3 :: "char \<Rightarrow> char \<Rightarrow> char \<Rightarrow> bool" where
  "is_space3 a b c =
     ((a = CHR 0xE1 \<and> b = CHR 0x9A \<and> c = CHR 0x80) \<or>
      (a = CHR 0xE2 \<and> b = CHR 0x80 \<and>
         ((128 \<le> (of_char c :: nat) \<and> (of_char c :: nat) \<le> 138) \<or>
          c = CHR 0xA8 \<or> c = CHR 0xA9 \<or> c = CHR 0xAF)) \<or>
      (a = CHR 0xE2 \<and> b = CHR 0x81 \<and> c = CHR 0x9F) \<or>
      (a = CHR 0xE3 \<and> b = CHR 0x80 \<and> c = CHR 0x80))"

fun lstrip :: "string \<Rightarrow> string" where
  "lstrip (a # b # c # cs) =
     (if is_space a then lstrip (b # c # cs)
      else if is_space2 a b then lstrip (c # cs)
      else if is_space3 a b c then lstrip cs
      else a # b # c # cs)"
| "lstrip [a, b] = (if is_space a then lstrip [b] else if is_space2 a b then [] else [a, b])"
| "lstrip [a] = (if is_space a then [] else [a])"
| "lstrip [] = []"

text \<open>The same from the right end, on the reversed string.\<close>

fun rstrip_rev :: "string \<Rightarrow> string" where
  "rstrip_rev (a # b # c # cs) =
     (if is_space a then rstrip_rev (b # c # cs)
      else if is_space2 b a then rstrip_rev (c # cs)
      else if is_space3 c b a then rstrip_rev cs
      else a # b # c # cs)"
| "rstrip_rev [a, b] = (if is_space a then rstrip_rev [b] else if is_space2 b a then [] else [a, b])"
| "rstrip_rev [a] = (if is_space a then [] else [a])"
| "rstrip_rev [] = []"

definition strip :: "string \<Rightarrow> string" where
  "strip s = rev (rstrip_rev (rev (lstrip s)))"

text \<open>
  \<^verbatim>\<open>str.split(sep, maxsplit)\<close> for a non-empty separator: the string is cut at the leftmost
  occurrences of the separator, at most \<open>maxsplit\<close> times.
\<close>

fun break_at :: "string \<Rightarrow> string \<Rightarrow> (string \<times> string) option" where
  "break_at sep [] = (if sep = [] then Some ([], []) else None)"
| "break_at sep (c # cs) =
     (if startswith (c # cs) sep then Some ([], drop (length sep) (c # cs))
      else (case break_at sep cs of
              None \<Rightarrow> None
            | Some (a, b) \<Rightarrow> Some (c # a, b)))"

fun split_max :: "nat \<Rightarrow> string \<Rightarrow> string \<Rightarrow> string list" where
  "split_max 0 sep s = [s]"
| "split_max (Suc n) sep s =
     (case break_at sep s of
        None \<Rightarrow> [s]
      | Some (a, b) \<Rightarrow> a # split_max n sep b)"

text \<open>\<^verbatim>\<open>sep.join(lines)\<close>.\<close>

fun join :: "string \<Rightarrow> string list \<Rightarrow> string" where
  "join sep [] = []"
| "join sep [x] = x"
| "join sep (x # y # ys) = x @ sep @ join sep (y # ys)"

text \<open>\<^verbatim>\<open>str(n)\<close> for a Python integer.\<close>

definition digit_char :: "nat \<Rightarrow> char" where
  "digit_char d = char_of (48 + d)"

function show_nat :: "nat \<Rightarrow> string" where
  "show_nat n = (if n < 10 then [digit_char n] else show_nat (n div 10) @ [digit_char (n mod 10)])"
  by pat_completeness auto
termination
  by (relation "measure id") auto

definition show_int :: "int \<Rightarrow> string" where
  "show_int i = (if i < 0 then CHR ''-'' # show_nat (nat (- i)) else show_nat (nat i))"

text \<open>
  Exceptions. An exception carries its class and the text \<^verbatim>\<open>str(e)\<close>. The classes are
  the ones the two modules raise or catch by name, one class standing for every other
  subclass of \<^verbatim>\<open>Exception\<close> (what the reasoning capability raises on a failed call), and
  the two that derive from \<^verbatim>\<open>BaseException\<close> only, which \<^verbatim>\<open>except Exception\<close> lets through.
\<close>

datatype exn_class =
    FileNotFoundError
  | ValueError
  | ValidationError
  | YAMLError
  | AttributeError
  | OtherException
  | CancelledError
  | KeyboardInterrupt

datatype exn = Exn exn_class string

fun exn_str :: "exn \<Rightarrow> string" where
  "exn_str (Exn c m) = m"

text \<open>\<^verbatim>\<open>isinstance(e, Exception)\<close>.\<close>

fun is_Exception :: "exn \<Rightarrow> bool" where
  "is_Exception (Exn CancelledError m) = False"
| "is_Exception (Exn KeyboardInterrupt m) = False"
| "is_Exception (Exn c m) = True"

text \<open>
  \<^verbatim>\<open>isinstance(e, (FileNotFoundError, ValueError))\<close>; pydantic's \<^verbatim>\<open>ValidationError\<close> is a
  subclass of \<^verbatim>\<open>ValueError\<close>.
\<close>

fun is_FileNotFound_or_ValueError :: "exn \<Rightarrow> bool" where
  "is_FileNotFound_or_ValueError (Exn FileNotFoundError m) = True"
| "is_FileNotFound_or_ValueError (Exn ValueError m) = True"
| "is_FileNotFound_or_ValueError (Exn ValidationError m) = True"
| "is_FileNotFound_or_ValueError (Exn c m) = False"

text \<open>
  \<^verbatim>\<open>str(i)\<close>, also as \<^verbatim>\<open>{i}\<close> in an f-string: CPython refuses to print an integer of more
  digits than its integer-string limit, 4300 by default, with a \<^verbatim>\<open>ValueError\<close>. (The length
  of a list is at most \<^verbatim>\<open>sys.maxsize\<close>, far below the limit, so \<^verbatim>\<open>str(len(xs))\<close> is printed
  with \<open>show_nat\<close>.)
\<close>

definition int_max_str_digits :: nat where
  "int_max_str_digits = 4300"

definition str_int :: "int \<Rightarrow> exn + string" where
  "str_int i =
     (if \<bar>i\<bar> < 10 ^ int_max_str_digits then Inr (show_int i)
      else Inl (Exn ValueError
             ''Exceeds the limit (4300 digits) for integer string conversion; use sys.set_int_max_str_digits() to increase the limit''))"

text \<open>What \<^verbatim>\<open>yaml.safe_load\<close> returns: scalars, sequences and mappings.\<close>

datatype yaml =
    YNull
  | YBool bool
  | YNum real
  | YStr string
  | YList "yaml list"
  | YMap "(string \<times> yaml) list"

text \<open>Python truthiness of such a value, as \<^verbatim>\<open>metadata or {}\<close> tests it.\<close>

fun yaml_truthy :: "yaml \<Rightarrow> bool" where
  "yaml_truthy YNull = False"
| "yaml_truthy (YBool b) = b"
| "yaml_truthy (YNum x) = (x \<noteq> 0)"
| "yaml_truthy (YStr s) = (s \<noteq> [])"
| "yaml_truthy (YList xs) = (xs \<noteq> [])"
| "yaml_truthy (YMap kvs) = (kvs \<noteq> [])"

text \<open>
  How \<^verbatim>\<open>yaml.safe_load\<close> fails: with a \<^verbatim>\<open>yaml.YAMLError\<close> on text that is not YAML, with a
  \<^verbatim>\<open>ValueError\<close> when a constructor rejects a well-formed scalar (the date \<^verbatim>\<open>2001-13-45\<close>), or
  with another \<^verbatim>\<open>Exception\<close>. Each carries its text.
\<close>

datatype yaml_failure =
    YAMLFailure string
  | ValueFailure string
  | OtherFailure string

fun yaml_exn :: "yaml_failure \<Rightarrow> exn" where
  "yaml_exn (YAMLFailure m) = Exn YAMLError m"
| "yaml_exn (ValueFailure m) = Exn ValueError m"
| "yaml_exn (OtherFailure m) = Exn OtherException m"

section \<open>The skill-based agent\<close>

subsection \<open>Data models\<close>

record skill_metadata =
  sm_name :: string
  sm_description :: string
  sm_path :: string
  sm_category :: string
  sm_priority :: int
  sm_tokens_estimate :: int
  sm_references :: "string list"

record loaded_skill =
  ls_name :: string
  ls_content :: string
  ls_front_matter :: "(string \<times> yaml) list"

record skill_reference =
  sr_name :: string
  sr_skill_name :: string
  sr_content :: string

record skills_manifest =
  mf_version :: string
  mf_updated :: string
  mf_total_skills :: int
  mf_skills :: "skill_metadata list"

text \<open>\<^verbatim>\<open>AgentDependencies\<close>: the cache handed to the tools of one agent run.\<close>

record agent_dependencies =
  ad_skills_path :: string
  ad_manifest :: "skills_manifest option"
  ad_loaded_skills :: "string \<rightharpoonup> loaded_skill"
  ad_loaded_references :: "string \<rightharpoonup> skill_reference"

text \<open>\<^verbatim>\<open>AgentDependencies()\<close> with the defaults of the dataclass.\<close>

definition AgentDependencies :: agent_dependencies where
  "AgentDependencies =
     \<lparr>ad_skills_path = ''./zonewise/skills'', ad_manifest = None,
      ad_loaded_skills = Map.empty, ad_loaded_references = Map.empty\<rparr>"

text \<open>
  What the modules use from outside the repository: the document store (a path either
  holds a readable text or does not exist), \<^verbatim>\<open>pathlib\<close>'s \<^verbatim>\<open>parent\<close> and \<^verbatim>\<open>/\<close>,
  \<^verbatim>\<open>yaml.safe_load\<close> (\<open>Inl\<close> is the way it fails), pydantic's
  validation of the manifest data (\<open>Inl\<close> is the text of the error raised by
  \<^verbatim>\<open>SkillsManifest(**data)\<close>), and the two float formats of the report,
  \<^verbatim>\<open>format(x, ",.0f")\<close> and \<^verbatim>\<open>str(x)\<close>.
\<close>

record env =
  files :: "string \<rightharpoonup> string"
  path_parent :: "string \<Rightarrow> string"
  path_join :: "string \<Rightarrow> string \<Rightarrow> string"
  yaml_safe_load :: "string \<Rightarrow> yaml_failure + yaml"
  validate_manifest :: "yaml \<Rightarrow> string + skills_manifest"
  format_comma0 :: "real \<Rightarrow> string"
  str_float :: "real \<Rightarrow> string"

text \<open>
  Every retrieval of a text from the document store is recorded, in order: the manifest,
  a skill document (by skill name), a reference document (by skill and reference name).
  A test of \<^verbatim>\<open>exists()\<close> retrieves nothing and is not recorded.
\<close>

datatype io_event =
    ManifestRead
  | SkillRead string
  | ReferenceRead string string

subsection \<open>Front matter\<close>

text \<open>
  \<^verbatim>\<open>parse_front_matter\<close>. The \<^verbatim>\<open>except\<close> clause names \<^verbatim>\<open>yaml.YAMLError\<close>: that failure is
  swallowed and falls through to the last \<^verbatim>\<open>return\<close>, as a document with fewer than two
  markers does; any other exception of \<^verbatim>\<open>yaml.safe_load\<close> leaves the function.
\<close>

definition parse_front_matter :: "env \<Rightarrow> string \<Rightarrow> exn + yaml \<times> string" where
  "parse_front_matter E content =
     (if startswith content ''---'' then
        (let parts = split_max 2 ''---'' content in
         if length parts \<ge> 3 then
           (case yaml_safe_load E (parts ! 1) of
              Inr metadata \<Rightarrow>
                (let body = strip (parts ! 2)
                 in Inr (if yaml_truthy metadata then metadata else YMap [], body))
            | Inl (YAMLFailure m) \<Rightarrow> Inr (YMap [], content)
            | Inl (ValueFailure m) \<Rightarrow> Inl (Exn ValueError m)
            | Inl (OtherFailure m) \<Rightarrow> Inl (Exn OtherException m))
         else Inr (YMap [], content))
      else Inr (YMap [], content))"

subsection \<open>Skill loader functions\<close>

text \<open>
  \<^verbatim>\<open>load_manifest\<close>: a missing manifest raises \<^verbatim>\<open>FileNotFoundError\<close> before anything is
  read; otherwise the file is read, and parsing or validation may still raise.
\<close>

definition load_manifest ::
  "env \<Rightarrow> string \<Rightarrow> io_event list \<Rightarrow> (exn + skills_manifest) \<times> io_event list" where
  "load_manifest E skills_path tr =
     (let manifest_path = path_join E skills_path ''skills-manifest.yaml'' in
      case files E manifest_path of
        None \<Rightarrow>
          (Inl (Exn FileNotFoundError (''Skills manifest not found: '' @ manifest_path)), tr)
      | Some text \<Rightarrow>
          (case yaml_safe_load E text of
             Inl failure \<Rightarrow> (Inl (yaml_exn failure), tr @ [ManifestRead])
           | Inr data \<Rightarrow>
               (case validate_manifest E data of
                  Inl err \<Rightarrow> (Inl (Exn ValidationError err), tr @ [ManifestRead])
                | Inr m \<Rightarrow> (Inr m, tr @ [ManifestRead]))))"

text \<open>
  \<^verbatim>\<open>get_skill_descriptions\<close>: four lines for every skill; printing a priority can fail as
  \<open>str_int\<close> does.
\<close>

fun skill_lines :: "skill_metadata list \<Rightarrow> exn + string list" where
  "skill_lines [] = Inr []"
| "skill_lines (skill # rest) =
     (case str_int (sm_priority skill) of
        Inl e \<Rightarrow> Inl e
      | Inr priority \<Rightarrow>
          (case skill_lines rest of
             Inl e \<Rightarrow> Inl e
           | Inr ls \<Rightarrow>
               Inr ([''## '' @ sm_name skill,
                     strip (sm_description skill),
                     ''Category: '' @ sm_category skill @ '' | Priority: '' @ priority,
                     []] @ ls)))"

definition get_skill_descriptions :: "skills_manifest \<Rightarrow> exn + string" where
  "get_skill_descriptions m =
     (case skill_lines (mf_skills m) of
        Inl e \<Rightarrow> Inl e
      | Inr ls \<Rightarrow>
          Inr (join nl
                 ([''# Available Skills'',
                   [],
                   ''You have access to the following skills. Use load_skill when needed:'',
                   []] @ ls)))"

text \<open>
  \<^verbatim>\<open>LoadedSkill(..., front_matter=front_matter)\<close> validates that the front matter is a
  mapping; for any other value pydantic raises a \<^verbatim>\<open>ValidationError\<close>.
\<close>

fun yaml_as_dict :: "yaml \<Rightarrow> (string \<times> yaml) list option" where
  "yaml_as_dict (YMap kvs) = Some kvs"
| "yaml_as_dict y = None"

definition load_skill_content ::
  "env \<Rightarrow> string \<Rightarrow> string \<Rightarrow> skills_manifest \<Rightarrow> io_event list
     \<Rightarrow> (exn + loaded_skill) \<times> io_event list" where
  "load_skill_content E skills_path skill_name m tr =
     (case find (\<lambda>s. sm_name s = skill_name) (mf_skills m) of
        None \<Rightarrow> (Inl (Exn ValueError (''Skill not found: '' @ skill_name)), tr)
      | Some skill_meta \<Rightarrow>
          (let skill_path = path_join E (path_parent E skills_path) (sm_path skill_meta) in
           case files E skill_path of
             None \<Rightarrow>
               (Inl (Exn FileNotFoundError (''Skill file not found: '' @ skill_path)), tr)
           | Some content \<Rightarrow>
               (case parse_front_matter E content of
                  Inl e \<Rightarrow> (Inl e, tr @ [SkillRead skill_name])
                | Inr (front_matter, body) \<Rightarrow>
                    (case yaml_as_dict front_matter of
                       Some fm \<Rightarrow>
                         (Inr \<lparr>ls_name = skill_name, ls_content = body, ls_front_matter = fm\<rparr>,
                          tr @ [SkillRead skill_name])
                     | None \<Rightarrow>
                         (Inl (Exn ValidationError ''front_matter: Input should be a valid dictionary''),
                          tr @ [SkillRead skill_name])))))"

text \<open>\<^verbatim>\<open>str.replace(old, new)\<close> for a non-empty \<open>old\<close>.\<close>

definition replace_all :: "string \<Rightarrow> string \<Rightarrow> string \<Rightarrow> string" where
  "replace_all old new s = join new (split_max (length s) old s)"

definition load_reference_content ::
  "env \<Rightarrow> string \<Rightarrow> string \<Rightarrow> string \<Rightarrow> skills_manifest \<Rightarrow> io_event list
     \<Rightarrow> (exn + skill_reference) \<times> io_event list" where
  "load_reference_content E skills_path skill_name reference_name m tr =
     (case find (\<lambda>s. sm_name s = skill_name) (mf_skills m) of
        None \<Rightarrow> (Inl (Exn ValueError (''Skill not found: '' @ skill_name)), tr)
      | Some skill_meta \<Rightarrow>
          (let skill_dir =
                 path_join E (path_parent E skills_path)
                   (replace_all ''/SKILL.md'' [] (sm_path skill_meta));
               ref_path = path_join E (path_join E skill_dir ''references'') reference_name in
           case files E ref_path of
             None \<Rightarrow> (Inl (Exn FileNotFoundError (''Reference not found: '' @ ref_path)), tr)
           | Some content \<Rightarrow>
               (Inr \<lparr>sr_name = reference_name, sr_skill_name = skill_name, sr_content = content\<rparr>,
                tr @ [ReferenceRead skill_name reference_name])))"

subsection \<open>Tool definitions\<close>

text \<open>
  The two tools work on the dependencies and the retrieval record. The manifest is
  loaded outside the \<^verbatim>\<open>try\<close> block, so its failure leaves the tool as an exception; the
  \<^verbatim>\<open>except\<close> clause turns a \<^verbatim>\<open>FileNotFoundError\<close> or \<^verbatim>\<open>ValueError\<close> of the content loader into
  the returned text.
\<close>

definition ensure_manifest ::
  "env \<Rightarrow> agent_dependencies \<Rightarrow> io_event list \<Rightarrow> (exn + skills_manifest) \<times> io_event list" where
  "ensure_manifest E deps tr =
     (case ad_manifest deps of
        Some m \<Rightarrow> (Inr m, tr)
      | None \<Rightarrow> load_manifest E (ad_skills_path deps) tr)"

definition load_skill_tool ::
  "env \<Rightarrow> string \<Rightarrow> agent_dependencies \<Rightarrow> io_event list
     \<Rightarrow> (exn + string) \<times> agent_dependencies \<times> io_event list" where
  "load_skill_tool E skill_name deps tr =
     (case ad_loaded_skills deps skill_name of
        Some cached \<Rightarrow>
          (Inr (''[Skill '' @ apostrophe @ skill_name @ apostrophe @ '' already loaded]'' @ nl @ nl
                  @ ls_content cached), deps, tr)
      | None \<Rightarrow>
          (case ensure_manifest E deps tr of
             (Inl e, tr1) \<Rightarrow> (Inl e, deps, tr1)
           | (Inr m, tr1) \<Rightarrow>
               (let deps1 = deps\<lparr>ad_manifest := Some m\<rparr> in
                case load_skill_content E (ad_skills_path deps1) skill_name m tr1 of
                  (Inr skill, tr2) \<Rightarrow>
                    (Inr (''# '' @ skill_name @ '' Skill'' @ nl @ nl @ ls_content skill),
                     deps1\<lparr>ad_loaded_skills := (ad_loaded_skills deps1)(skill_name \<mapsto> skill)\<rparr>,
                     tr2)
                | (Inl e, tr2) \<Rightarrow>
                    (if is_FileNotFound_or_ValueError e
                     then (Inr (''Error loading skill: '' @ exn_str e), deps1, tr2)
                     else (Inl e, deps1, tr2)))))"

definition read_reference_tool ::
  "env \<Rightarrow> string \<Rightarrow> string \<Rightarrow> agent_dependencies \<Rightarrow> io_event list
     \<Rightarrow> (exn + string) \<times> agent_dependencies \<times> io_event list" where
  "read_reference_tool E skill_name reference_name deps tr =
     (let cache_key = skill_name @ '':'' @ reference_name in
      case ad_loaded_references deps cache_key of
        Some cached \<Rightarrow>
          (Inr (''[Reference already loaded]'' @ nl @ nl @ sr_content cached), deps, tr)
      | None \<Rightarrow>
          (case ensure_manifest E deps tr of
             (Inl e, tr1) \<Rightarrow> (Inl e, deps, tr1)
           | (Inr m, tr1) \<Rightarrow>
               (let deps1 = deps\<lparr>ad_manifest := Some m\<rparr> in
                case load_reference_content E (ad_skills_path deps1) skill_name reference_name m tr1 of
                  (Inr ref, tr2) \<Rightarrow>
                    (Inr (''# Reference: '' @ reference_name @ nl @ nl @ sr_content ref),
                     deps1\<lparr>ad_loaded_references := (ad_loaded_references deps1)(cache_key \<mapsto> ref)\<rparr>,
                     tr2)
                | (Inl e, tr2) \<Rightarrow>
                    (if is_FileNotFound_or_ValueError e
                     then (Inr (''Error loading reference: '' @ exn_str e), deps1, tr2)
                     else (Inl e, deps1, tr2)))))"

subsection \<open>Agent factory and agent run\<close>

text \<open>
  \<^verbatim>\<open>create_agent\<close> loads the manifest for the system prompt; the agent is represented by
  its model name and the skill descriptions that are inserted into the fixed prompt
  template.
\<close>

record agent =
  ag_model :: string
  ag_skill_descriptions :: string

definition create_agent ::
  "env \<Rightarrow> string \<Rightarrow> string \<Rightarrow> io_event list \<Rightarrow> (exn + agent) \<times> io_event list" where
  "create_agent E model skills_path tr =
     (case load_manifest E skills_path tr of
        (Inl e, tr1) \<Rightarrow> (Inl e, tr1)
      | (Inr m, tr1) \<Rightarrow>
          (case get_skill_descriptions m of
             Inl e \<Rightarrow> (Inl e, tr1)
           | Inr skill_descriptions \<Rightarrow>
               (Inr \<lparr>ag_model = model, ag_skill_descriptions = skill_descriptions\<rparr>, tr1)))"

text \<open>
  \<^verbatim>\<open>agent.run(query, deps=deps)\<close> belongs to the agent library and the language model
  behind it. One run is described by what the model does with the query: the tool calls
  it issues, in order, and how the call ends (an exception, or the reply text). A tool
  that raises ends the run with that exception.
\<close>

datatype tool_call = LoadSkill string | ReadReference string string

record run_script =
  rs_tool_calls :: "tool_call list"
  rs_outcome :: "exn + string"

fun call_tool ::
  "env \<Rightarrow> tool_call \<Rightarrow> agent_dependencies \<Rightarrow> io_event list
     \<Rightarrow> (exn + string) \<times> agent_dependencies \<times> io_event list" where
  "call_tool E (LoadSkill n) deps tr = load_skill_tool E n deps tr"
| "call_tool E (ReadReference n r) deps tr = read_reference_tool E n r deps tr"

fun run_tools ::
  "env \<Rightarrow> tool_call list \<Rightarrow> agent_dependencies \<Rightarrow> io_event list
     \<Rightarrow> exn option \<times> agent_dependencies \<times> io_event list" where
  "run_tools E [] deps tr = (None, deps, tr)"
| "run_tools E (c # cs) deps tr =
     (case call_tool E c deps tr of
        (Inl e, deps1, tr1) \<Rightarrow> (Some e, deps1, tr1)
      | (Inr out, deps1, tr1) \<Rightarrow> run_tools E cs deps1 tr1)"

definition agent_run ::
  "env \<Rightarrow> (string \<Rightarrow> run_script) \<Rightarrow> string \<Rightarrow> agent_dependencies \<Rightarrow> io_event list
     \<Rightarrow> (exn + string) \<times> agent_dependencies \<times> io_event list" where
  "agent_run E capability query deps tr =
     (case run_tools E (rs_tool_calls (capability query)) deps tr of
        (Some e, deps1, tr1) \<Rightarrow> (Inl e, deps1, tr1)
      | (None, deps1, tr1) \<Rightarrow> (rs_outcome (capability query), deps1, tr1))"

text \<open>
  The command line of the agent module, \<^verbatim>\<open>main\<close>, up to its loop: the agent and the
  dependencies are created outside any \<^verbatim>\<open>try\<close> block, so an exception of \<^verbatim>\<open>create_agent\<close>
  leaves \<^verbatim>\<open>main\<close>.
\<close>

definition main_before_loop ::
  "env \<Rightarrow> io_event list \<Rightarrow> (exn + agent \<times> agent_dependencies) \<times> io_event list" where
  "main_before_loop E tr =
     (case create_agent E ''anthropic:claude-sonnet-4-20250514'' ''./zonewise/skills'' tr of
        (Inl e, tr1) \<Rightarrow> (Inl e, tr1)
      | (Inr agent, tr1) \<Rightarrow>
          (Inr (agent, AgentDependencies\<lparr>ad_skills_path := ''./zonewise/skills''\<rparr>), tr1))"

section \<open>The multi-agent workflow\<close>

subsection \<open>State models\<close>

datatype pyval = PStr string | PNum real

type_synonym pydict = "(string \<times> pyval) list"

text \<open>
  \<^verbatim>\<open>PropertyData\<close>. An optional field is an \<open>option\<close>; a float is a real number (the only
  tests the code makes on a float are whether it is \<^verbatim>\<open>None\<close> and whether it is zero).
\<close>

record property_data =
  pd_parcel_id :: string
  pd_address :: "string option"
  pd_zoning_district :: "string option"
  pd_zoning_dims :: "(string \<times> real) list option"
  pd_permitted_uses :: "string list"
  pd_arv :: "real option"
  pd_assessed_value :: "real option"
  pd_comparable_sales :: "pydict list"
  pd_max_bid :: "real option"
  pd_permit_history :: "pydict list"
  pd_open_violations :: "pydict list"
  pd_permit_risk_score :: int
  pd_max_buildable_sqft :: "real option"
  pd_max_height :: "real option"
  pd_envelope_generated :: bool
  pd_avg_sun_hours :: "real option"
  pd_shadow_impact :: "string option"

text \<open>\<^verbatim>\<open>PropertyData(parcel_id=parcel_id)\<close>: every other field takes its default.\<close>

definition PropertyData :: "string \<Rightarrow> property_data" where
  "PropertyData parcel_id =
     \<lparr>pd_parcel_id = parcel_id, pd_address = None,
      pd_zoning_district = None, pd_zoning_dims = None, pd_permitted_uses = [],
      pd_arv = None, pd_assessed_value = None, pd_comparable_sales = [], pd_max_bid = None,
      pd_permit_history = [], pd_open_violations = [], pd_permit_risk_score = 0,
      pd_max_buildable_sqft = None, pd_max_height = None, pd_envelope_generated = False,
      pd_avg_sun_hours = None, pd_shadow_impact = None\<rparr>"

datatype message = HumanMessage string | AIMessage string string

record analysis_state =
  st_messages :: "message list"
  st_parcel_id :: string
  st_property_data :: property_data
  st_current_agent :: string
  st_completed_agents :: "string list"
  st_errors :: "string list"
  st_final_report :: "string option"
  st_timestamp :: string

text \<open>Python truthiness of an optional float.\<close>

definition truthy_num :: "real option \<Rightarrow> bool" where
  "truthy_num x = (case x of None \<Rightarrow> False | Some v \<Rightarrow> v \<noteq> 0)"

text \<open>\<^verbatim>\<open>x or default\<close> for an optional string.\<close>

definition str_or :: "string option \<Rightarrow> string \<Rightarrow> string" where
  "str_or x d = (case x of None \<Rightarrow> d | Some v \<Rightarrow> if v \<noteq> [] then v else d)"

subsection \<open>Agent nodes\<close>

text \<open>
  Every node's \<^verbatim>\<open>try\<close> block starts with the same three calls: \<^verbatim>\<open>create_agent()\<close>,
  \<^verbatim>\<open>AgentDependencies()\<close> and \<^verbatim>\<open>agent.run(query, deps=deps)\<close>, with the default model and
  skills path. The dependencies are local to the node and dropped when it returns.
\<close>

definition invoke_agent ::
  "env \<Rightarrow> (string \<Rightarrow> run_script) \<Rightarrow> string \<Rightarrow> io_event list \<Rightarrow> (exn + string) \<times> io_event list" where
  "invoke_agent E capability query tr =
     (case create_agent E ''anthropic:claude-sonnet-4-20250514'' ''./zonewise/skills'' tr of
        (Inl e, tr1) \<Rightarrow> (Inl e, tr1)
      | (Inr agent, tr1) \<Rightarrow>
          (let deps = AgentDependencies in
           case agent_run E capability query deps tr1 of
             (result, deps1, tr2) \<Rightarrow> (result, tr2)))"

text \<open>The query texts of the four nodes.\<close>

definition zoning_query :: "string \<Rightarrow> string" where
  "zoning_query parcel_id =
     ''Analyze the zoning for parcel '' @ parcel_id @
     ''. What district is it in and what are the development intensity metrics (setbacks, FAR, max height)?''"

definition valuation_query :: "string \<Rightarrow> string" where
  "valuation_query parcel_id =
     ''Estimate the ARV for parcel '' @ parcel_id @
     '' and calculate the maximum bid assuming $30,000 in repairs.''"

definition permit_query :: "string \<Rightarrow> string" where
  "permit_query parcel_id =
     ''Check the permit history and code violations for parcel '' @ parcel_id @ ''.''"

definition envelope_query :: "string \<Rightarrow> string option \<Rightarrow> string" where
  "envelope_query parcel_id zoning_district =
     ''Generate a building envelope for parcel '' @ parcel_id @ '' using '' @
     str_or zoning_district ''RS-10'' @ '' zoning.''"

text \<open>
  A node returns the state, or lets through an exception that \<^verbatim>\<open>except Exception\<close> does
  not catch. Nothing is written to the state before the agent call has returned, so the
  \<^verbatim>\<open>except\<close> branch sees the state the node was given. The statements after the agent
  call assign constants and format them, which cannot fail (the permit node prints the
  score 15 it has just assigned).
\<close>

definition zoning_agent_node ::
  "env \<Rightarrow> (string \<Rightarrow> run_script) \<Rightarrow> analysis_state \<Rightarrow> io_event list
     \<Rightarrow> (exn + analysis_state) \<times> io_event list" where
  "zoning_agent_node E capability state tr =
     (let parcel_id = st_parcel_id state;
          property_data = st_property_data state;
          query = zoning_query parcel_id
      in case invoke_agent E capability query tr of
           (Inr result, tr1) \<Rightarrow>
             (let property_data1 = property_data
                    \<lparr>pd_zoning_district := Some ''RS-10'',
                     pd_zoning_dims := Some
                       [(''max_height_ft'', 35), (''far'', 35 / 100), (''front_setback_ft'', 25),
                        (''side_setback_ft'', 15 / 2), (''rear_setback_ft'', 20)]\<rparr>
              in (Inr (state
                    \<lparr>st_property_data := property_data1,
                     st_messages := st_messages state @
                       [AIMessage (''[Zoning Agent] Analyzed zoning for '' @ parcel_id @ '': '' @ ''RS-10'')
                          ''zoning_agent''],
                     st_completed_agents := st_completed_agents state @ [''zoning'']\<rparr>), tr1))
         | (Inl e, tr1) \<Rightarrow>
             (if is_Exception e
              then (Inr (state\<lparr>st_errors := st_errors state @ [''Zoning agent error: '' @ exn_str e]\<rparr>), tr1)
              else (Inl e, tr1)))"

definition valuation_agent_node ::
  "env \<Rightarrow> (string \<Rightarrow> run_script) \<Rightarrow> analysis_state \<Rightarrow> io_event list
     \<Rightarrow> (exn + analysis_state) \<times> io_event list" where
  "valuation_agent_node E capability state tr =
     (let parcel_id = st_parcel_id state;
          property_data = st_property_data state;
          query = valuation_query parcel_id
      in case invoke_agent E capability query tr of
           (Inr result, tr1) \<Rightarrow>
             (let property_data1 = property_data
                    \<lparr>pd_arv := Some 325000,
                     pd_max_bid := Some 165000,
                     pd_comparable_sales :=
                       [[(''address'', PStr ''123 Main St''), (''price'', PNum 310000), (''sqft'', PNum 1450)],
                        [(''address'', PStr ''456 Oak Ave''), (''price'', PNum 340000), (''sqft'', PNum 1550)]]\<rparr>
              in (Inr (state
                    \<lparr>st_property_data := property_data1,
                     st_messages := st_messages state @
                       [AIMessage (''[Valuation Agent] ARV: $'' @ format_comma0 E 325000 @
                                   '', Max Bid: $'' @ format_comma0 E 165000)
                          ''valuation_agent''],
                     st_completed_agents := st_completed_agents state @ [''valuation'']\<rparr>), tr1))
         | (Inl e, tr1) \<Rightarrow>
             (if is_Exception e
              then (Inr (state\<lparr>st_errors := st_errors state @ [''Valuation agent error: '' @ exn_str e]\<rparr>), tr1)
              else (Inl e, tr1)))"

definition permit_agent_node ::
  "env \<Rightarrow> (string \<Rightarrow> run_script) \<Rightarrow> analysis_state \<Rightarrow> io_event list
     \<Rightarrow> (exn + analysis_state) \<times> io_event list" where
  "permit_agent_node E capability state tr =
     (let parcel_id = st_parcel_id state;
          property_data = st_property_data state;
          query = permit_query parcel_id
      in case invoke_agent E capability query tr of
           (Inr result, tr1) \<Rightarrow>
             (let property_data1 = property_data
                    \<lparr>pd_permit_history :=
                       [[(''type'', PStr ''Roofing''), (''date'', PStr ''2020-05-15''), (''status'', PStr ''Closed'')],
                        [(''type'', PStr ''Electrical''), (''date'', PStr ''2018-03-20''), (''status'', PStr ''Closed'')]],
                     pd_open_violations := [],
                     pd_permit_risk_score := 15\<rparr>
              in (Inr (state
                    \<lparr>st_property_data := property_data1,
                     st_messages := st_messages state @
                       [AIMessage (''[Permit Agent] Risk score: '' @ show_int 15 @ ''/100, No open violations'')
                          ''permit_agent''],
                     st_completed_agents := st_completed_agents state @ [''permit'']\<rparr>), tr1))
         | (Inl e, tr1) \<Rightarrow>
             (if is_Exception e
              then (Inr (state\<lparr>st_errors := st_errors state @ [''Permit agent error: '' @ exn_str e]\<rparr>), tr1)
              else (Inl e, tr1)))"

definition envelope_agent_node ::
  "env \<Rightarrow> (string \<Rightarrow> run_script) \<Rightarrow> analysis_state \<Rightarrow> io_event list
     \<Rightarrow> (exn + analysis_state) \<times> io_event list" where
  "envelope_agent_node E capability state tr =
     (let parcel_id = st_parcel_id state;
          property_data = st_property_data state;
          dims = (case pd_zoning_dims property_data of None \<Rightarrow> [] | Some d \<Rightarrow> d);
          query = envelope_query parcel_id (pd_zoning_district property_data)
      in case invoke_agent E capability query tr of
           (Inr result, tr1) \<Rightarrow>
             (let property_data1 = property_data
                    \<lparr>pd_max_buildable_sqft := Some 2500,
                     pd_max_height :=
                       Some (case map_of dims ''max_height_ft'' of None \<Rightarrow> 35 | Some h \<Rightarrow> h),
                     pd_envelope_generated := True,
                     pd_avg_sun_hours := Some (17 / 2)\<rparr>
              in (Inr (state
                    \<lparr>st_property_data := property_data1,
                     st_messages := st_messages state @
                       [AIMessage (''[Envelope Agent] Max buildable: '' @ format_comma0 E 2500 @
                                   '' sqft, Generated 3D envelope'')
                          ''envelope_agent''],
                     st_completed_agents := st_completed_agents state @ [''envelope'']\<rparr>), tr1))
         | (Inl e, tr1) \<Rightarrow>
             (if is_Exception e
              then (Inr (state\<lparr>st_errors := st_errors state @ [''Envelope agent error: '' @ exn_str e]\<rparr>), tr1)
              else (Inl e, tr1)))"

subsection \<open>Synthesizer\<close>

text \<open>The four recommendation texts; the leading symbol of each is written in UTF-8.\<close>

definition BID :: string where
  "BID = [CHR 0xE2, CHR 0x9C, CHR 0x85] @ '' **BID** - Low risk property with good fundamentals''"

definition REVIEW :: string where
  "REVIEW = [CHR 0xE2, CHR 0x9A, CHR 0xA0, CHR 0xEF, CHR 0xB8, CHR 0x8F] @
     '' **REVIEW** - Moderate risk, investigate further''"

definition SKIP :: string where
  "SKIP = [CHR 0xE2, CHR 0x9D, CHR 0x8C] @ '' **SKIP** - High risk or insufficient data''"

definition INCOMPLETE :: string where
  "INCOMPLETE = [CHR 0xE2, CHR 0x9A, CHR 0xA0, CHR 0xEF, CHR 0xB8, CHR 0x8F] @
     '' **INCOMPLETE** - Insufficient data for recommendation''"

text \<open>
  The recommendation of \<^verbatim>\<open>synthesizer_node\<close>. The outer test is Python truthiness:
  \<^verbatim>\<open>property_data.arv and property_data.max_bid\<close> holds when neither is \<^verbatim>\<open>None\<close> nor zero.
\<close>

definition recommendation :: "property_data \<Rightarrow> string" where
  "recommendation property_data =
     (if truthy_num (pd_arv property_data) \<and> truthy_num (pd_max_bid property_data) then
        (if pd_permit_risk_score property_data < 30 \<and> pd_open_violations property_data = [] then BID
         else if pd_permit_risk_score property_data < 50 then REVIEW
         else SKIP)
      else INCOMPLETE)"

text \<open>\<^verbatim>\<open>x or 'N/A'\<close> inside an f-string, for an optional float.\<close>

definition num_or_na :: "env \<Rightarrow> real option \<Rightarrow> string" where
  "num_or_na E x = (case x of None \<Rightarrow> ''N/A'' | Some v \<Rightarrow> if v \<noteq> 0 then str_float E v else ''N/A'')"

text \<open>\<^verbatim>\<open>f"...{x:,.0f}..." if x else "..."\<close>: the format is applied to a float that is not zero.\<close>

definition if_truthy :: "real option \<Rightarrow> (real \<Rightarrow> string) \<Rightarrow> string \<Rightarrow> string" where
  "if_truthy x f d = (case x of None \<Rightarrow> d | Some v \<Rightarrow> if v \<noteq> 0 then f v else d)"

text \<open>
  The lines of the report up to the recommendation heading. The only line that can fail
  is the one that prints the permit risk score, an integer.
\<close>

definition report_lines :: "env \<Rightarrow> analysis_state \<Rightarrow> exn + string list" where
  "report_lines E state =
     (let property_data = st_property_data state in
      case str_int (pd_permit_risk_score property_data) of
        Inl e \<Rightarrow> Inl e
      | Inr risk_score \<Rightarrow>
          Inr
            [''# ZoneWise Property Analysis Report'',
             ''**Parcel ID:** '' @ pd_parcel_id property_data,
             ''**Generated:** '' @ st_timestamp state,
             [],
             ''## Zoning Summary'',
             ''- **District:** '' @ str_or (pd_zoning_district property_data) ''Unknown'',
             ''- **Max Height:** '' @ num_or_na E (pd_max_height property_data) @ '' ft'',
             if_truthy (pd_max_buildable_sqft property_data)
               (\<lambda>v. ''- **Max Buildable:** '' @ format_comma0 E v @ '' sqft'')
               ''- **Max Buildable:** N/A'',
             [],
             ''## Valuation Summary'',
             if_truthy (pd_arv property_data)
               (\<lambda>v. ''- **Estimated ARV:** $'' @ format_comma0 E v)
               ''- **Estimated ARV:** N/A'',
             if_truthy (pd_max_bid property_data)
               (\<lambda>v. ''- **Max Bid (70% rule):** $'' @ format_comma0 E v)
               ''- **Max Bid:** N/A'',
             ''- **Comparable Sales:** '' @ show_nat (length (pd_comparable_sales property_data)) @ '' found'',
             [],
             ''## Permit Analysis'',
             ''- **Permit Risk Score:** '' @ risk_score @ ''/100'',
             ''- **Open Violations:** '' @ show_nat (length (pd_open_violations property_data)),
             ''- **Historical Permits:** '' @ show_nat (length (pd_permit_history property_data)),
             [],
             ''## Sun/Shadow Analysis'',
             ''- **Average Sun Hours:** '' @ num_or_na E (pd_avg_sun_hours property_data) @ '' hrs/day'',
             ''- **3D Envelope:** '' @
                (if pd_envelope_generated property_data then ''Generated'' else ''Not generated''),
             [],
             ''## Recommendation''])"

text \<open>
  \<^verbatim>\<open>synthesizer_node\<close>: an exception raised while the report lines are built leaves the
  function, which has no \<^verbatim>\<open>try\<close> block.
\<close>

definition synthesizer_node :: "env \<Rightarrow> analysis_state \<Rightarrow> exn + analysis_state" where
  "synthesizer_node E state =
     (let property_data = st_property_data state;
          errors = st_errors state
      in case report_lines E state of
           Inl e \<Rightarrow> Inl e
         | Inr report_lines0 \<Rightarrow>
             (let lines0 = report_lines0 @ [recommendation property_data];
                  lines1 = (if errors \<noteq> []
                            then lines0 @ [[], ''## Errors''] @ map (\<lambda>e. ''- '' @ e) errors
                            else lines0)
              in Inr (state
                   \<lparr>st_final_report := Some (join nl lines1),
                    st_messages := st_messages state @
                      [AIMessage (''[Synthesizer] Generated final report with recommendation: '' @
                                  recommendation property_data) ''synthesizer'']\<rparr>)))"

subsection \<open>Router\<close>

definition agent_order :: "string list" where
  "agent_order = [''zoning'', ''valuation'', ''permit'', ''envelope'']"

text \<open>
  \<^verbatim>\<open>route_to_next_agent\<close>: the loop returns at the first agent of the order that is not in
  the list of completed agents.
\<close>

definition route_to_next_agent :: "analysis_state \<Rightarrow> string" where
  "route_to_next_agent state =
     (let completed = st_completed_agents state in
      case find (\<lambda>agent. agent \<notin> set completed) agent_order of
        Some agent \<Rightarrow> agent
      | None \<Rightarrow> if ''synthesizer'' \<notin> set completed then ''synthesizer'' else ''end'')"

subsection \<open>Workflow and runner\<close>

text \<open>
  \<^verbatim>\<open>create_analysis_workflow\<close> registers the five nodes, routes the start and every agent
  node through \<^verbatim>\<open>route_to_next_agent\<close>, and joins the synthesizer to the end. The graph
  library that executes these edges is outside the repository: the run below follows
  them one node at a time. The library bounds the number of steps of one invocation
  (its recursion limit, the parameter \<open>budget\<close>) and raises when the steps are used up
  before the end. After the start, every node takes one step, and so does noticing that
  nothing is left to run: a run of five nodes completes with a budget of six, and a run
  that keeps finding a node executes as many nodes as the budget. The reasoning
  capability may answer differently each time it is asked, so it is indexed by the
  number of nodes already executed.
\<close>

definition run_agent_node ::
  "env \<Rightarrow> (string \<Rightarrow> run_script) \<Rightarrow> string \<Rightarrow> analysis_state \<Rightarrow> io_event list
     \<Rightarrow> (exn + analysis_state) \<times> io_event list" where
  "run_agent_node E capability name state tr =
     (if name = ''zoning'' then zoning_agent_node E capability state tr
      else if name = ''valuation'' then valuation_agent_node E capability state tr
      else if name = ''permit'' then permit_agent_node E capability state tr
      else envelope_agent_node E capability state tr)"

datatype run_result =
    Finished analysis_state
  | GraphRecursionError analysis_state
  | Raised exn

fun is_Finished :: "run_result \<Rightarrow> bool" where
  "is_Finished (Finished s) = True"
| "is_Finished r = False"

fun is_GraphRecursionError :: "run_result \<Rightarrow> bool" where
  "is_GraphRecursionError (GraphRecursionError s) = True"
| "is_GraphRecursionError r = False"

text \<open>The errors of the state a run ended with; a run that raised has no state.\<close>

fun errors_of :: "run_result \<Rightarrow> string list" where
  "errors_of (Finished s) = st_errors s"
| "errors_of (GraphRecursionError s) = st_errors s"
| "errors_of (Raised e) = []"

fun run_graph ::
  "env \<Rightarrow> (nat \<Rightarrow> string \<Rightarrow> run_script) \<Rightarrow> nat \<Rightarrow> nat \<Rightarrow> analysis_state \<Rightarrow> io_event list
     \<Rightarrow> run_result \<times> io_event list" where
  "run_graph E capability 0 k state tr = (GraphRecursionError state, tr)"
| "run_graph E capability (Suc budget) k state tr =
     (let dest = route_to_next_agent state in
      if dest = ''end'' then (Finished state, tr)
      else if dest = ''synthesizer'' then
        (case synthesizer_node E state of
           Inl e \<Rightarrow> (Raised e, tr)
         | Inr state1 \<Rightarrow>
             (case budget of
                0 \<Rightarrow> (GraphRecursionError state1, tr)
              | Suc b \<Rightarrow> (Finished state1, tr)))
      else (case run_agent_node E (capability k) dest state tr of
              (Inl e, tr1) \<Rightarrow> (Raised e, tr1)
            | (Inr state1, tr1) \<Rightarrow> run_graph E capability budget (Suc k) state1 tr1))"

text \<open>\<^verbatim>\<open>run_property_analysis\<close>; \<open>now\<close> is \<^verbatim>\<open>datetime.now().isoformat()\<close>.\<close>

definition initial_state :: "string \<Rightarrow> string \<Rightarrow> analysis_state" where
  "initial_state parcel_id now =
     \<lparr>st_messages = [HumanMessage (''Analyze property: '' @ parcel_id)],
      st_parcel_id = parcel_id,
      st_property_data = PropertyData parcel_id,
      st_current_agent = [],
      st_completed_agents = [],
      st_errors = [],
      st_final_report = None,
      st_timestamp = now\<rparr>"

definition run_property_analysis ::
  "env \<Rightarrow> (nat \<Rightarrow> string \<Rightarrow> run_script) \<Rightarrow> nat \<Rightarrow> string \<Rightarrow> string \<Rightarrow> run_result \<times> io_event list" where
  "run_property_analysis E capability budget parcel_id now =
     run_graph E capability budget 0 (initial_state parcel_id now) []"

subsection \<open>Parallel execution\<close>















section \<open>A small installation\<close>

text \<open>
  A document store with a manifest of one skill, its document and one reference, used
  to run the definitions on concrete inputs. Paths lose a leading \<^verbatim>\<open>./\<close>, as \<^verbatim>\<open>pathlib\<close>
  drops it. \<open>demo_yaml\<close> reads the two texts of this store and a scalar, fails on an
  impossible date as the date constructor does, and rejects every other text; the
  float formats print no digits.
\<close>

definition demo_skill :: skill_metadata where
  "demo_skill =
     \<lparr>sm_name = ''zoning-analysis'', sm_description = ''Zoning codes'',
      sm_path = ''skills/zoning-analysis/SKILL.md'', sm_category = ''zoning'',
      sm_priority = 1, sm_tokens_estimate = 800, sm_references = [''setbacks.md'']\<rparr>"

definition demo_manifest :: skills_manifest where
  "demo_manifest =
     \<lparr>mf_version = ''1.0'', mf_updated = ''2025-01-01'', mf_total_skills = 1,
      mf_skills = [demo_skill]\<rparr>"

definition demo_yaml :: "string \<Rightarrow> yaml_failure + yaml" where
  "demo_yaml s =
     (if s = ''skills: 1'' then Inr (YMap [(''skills'', YNum 1)])
      else if s = ''name: zoning-analysis'' then Inr (YMap [(''name'', YStr ''zoning-analysis'')])
      else if s = ''plain words'' then Inr (YStr ''plain words'')
      else if s = ''date: 2001-13-45'' then Inl (ValueFailure ''month must be in 1..12'')
      else Inl (YAMLFailure ''could not parse''))"

definition demo_files :: "(string \<times> string) list" where
  "demo_files =
     [(''zonewise/skills/skills-manifest.yaml'', ''skills: 1''),
      (''zonewise/skills/zoning-analysis/SKILL.md'', ''---name: zoning-analysis---Use the code.''),
      (''zonewise/skills/zoning-analysis/references/setbacks.md'', ''Front 25 ft'')]"

text \<open>The skill and the reference of this store, as the loaders build them.\<close>

definition demo_loaded :: loaded_skill where
  "demo_loaded =
     \<lparr>ls_name = ''zoning-analysis'', ls_content = ''Use the code.'',
      ls_front_matter = [(''name'', YStr ''zoning-analysis'')]\<rparr>"

definition demo_doc :: skill_reference where
  "demo_doc =
     \<lparr>sr_name = ''setbacks.md'', sr_skill_name = ''zoning-analysis'', sr_content = ''Front 25 ft''\<rparr>"

definition demo_norm :: "string \<Rightarrow> string" where
  "demo_norm p = (if startswith p ''./'' then drop 2 p else p)"

definition demo_parent :: "string \<Rightarrow> string" where
  "demo_parent p = rev (drop 1 (dropWhile (\<lambda>c. c \<noteq> CHR ''/'') (rev (demo_norm p))))"

definition demo_env :: env where
  "demo_env =
     \<lparr>files = map_of demo_files,
      path_parent = demo_parent,
      path_join = (\<lambda>a b. demo_norm a @ ''/'' @ b),
      yaml_safe_load = demo_yaml,
      validate_manifest = (\<lambda>y. Inr demo_manifest),
      format_comma0 = (\<lambda>x. ''#''),
      str_float = (\<lambda>x. ''#'')\<rparr>"

text \<open>The same installation without its manifest.\<close>

definition bare_env :: env where
  "bare_env = demo_env\<lparr>files := Map.empty\<rparr>"

text \<open>Reasoning capabilities: one that answers, one that loads the skill and answers.\<close>

definition answers :: "string \<Rightarrow> run_script" where
  "answers query = \<lparr>rs_tool_calls = [], rs_outcome = Inr ''ok''\<rparr>"

definition loads_skill :: "string \<Rightarrow> run_script" where
  "loads_skill query = \<lparr>rs_tool_calls = [LoadSkill ''zoning-analysis''], rs_outcome = Inr ''ok''\<rparr>"

definition fails :: "string \<Rightarrow> run_script" where
  "fails query = \<lparr>rs_tool_calls = [], rs_outcome = Inl (Exn OtherException ''boom'')\<rparr>"

section \<open>Front matter and routing\<close>

text \<open>
  Two documents that start with the marker and have a closing marker. The front matter
  of the first is a date with month 13: \<^verbatim>\<open>yaml.safe_load\<close> raises a \<^verbatim>\<open>ValueError\<close>, which the
  \<^verbatim>\<open>except yaml.YAMLError\<close> clause does not catch, and the exception leaves
  \<^verbatim>\<open>parse_front_matter\<close>. The front matter of the second is a scalar: it is returned as
  the front matter, with the text after the closing marker as body.
\<close>

theorem parse_front_matter_raises_counterexample:
  "startswith ''---date: 2001-13-45---body'' ''---'' \<and>
   split_max 2 ''---'' ''---date: 2001-13-45---body'' = [[], ''date: 2001-13-45'', ''body''] \<and>
   yaml_safe_load demo_env ''date: 2001-13-45'' = Inl (ValueFailure ''month must be in 1..12'') \<and>
   parse_front_matter demo_env ''---date: 2001-13-45---body'' =
     Inl (Exn ValueError ''month must be in 1..12'') \<and>
   yaml_safe_load demo_env ''plain words'' = Inr (YStr ''plain words'') \<and>
   parse_front_matter demo_env ''---plain words---body'' = Inr (YStr ''plain words'', ''body'') \<and>
   parse_front_matter demo_env ''---plain words---body'' \<noteq> Inr (YMap [], ''---plain words---body'')"
  by (simp add: parse_front_matter_def startswith_def numeral_2_eq_2 demo_env_def demo_yaml_def
      strip_def is_space_def is_space2_def is_space3_def Let_def)

text \<open>
  C7. A document that does not start with the marker \<^verbatim>\<open>---\<close> parses to the empty
  front-matter map and the whole document as body, and so does a document that starts
  with the marker and has no closing marker. A document that starts with the marker,
  has a closing marker, and whose enclosed text makes \<^verbatim>\<open>yaml.safe_load\<close> raise a
  \<^verbatim>\<open>YAMLError\<close> parses to the same pair, empty map and raw document, and no exception
  leaves the function. When \<^verbatim>\<open>yaml.safe_load\<close> returns a value, that value is the front
  matter, whatever its type, replaced by the empty map when it is falsy, and the body is
  the stripped text after the closing marker.
\<close>

theorem parse_front_matter_yaml_error_degrades:
  "(\<not> startswith content ''---'' \<longrightarrow> parse_front_matter E content = Inr (YMap [], content)) \<and>
   (startswith content ''---'' \<and> length (split_max 2 ''---'' content) < 3
      \<longrightarrow> parse_front_matter E content = Inr (YMap [], content)) \<and>
   (startswith content ''---'' \<and> length (split_max 2 ''---'' content) \<ge> 3 \<and>
      yaml_safe_load E (split_max 2 ''---'' content ! 1) = Inl (YAMLFailure err)
      \<longrightarrow> parse_front_matter E content = Inr (YMap [], content)) \<and>
   (startswith content ''---'' \<and> length (split_max 2 ''---'' content) \<ge> 3 \<and>
      yaml_safe_load E (split_max 2 ''---'' content ! 1) = Inr metadata
      \<longrightarrow> parse_front_matter E content =
            Inr (if yaml_truthy metadata then metadata else YMap [],
                 strip (split_max 2 ''---'' content ! 2)))"
  by (simp add: parse_front_matter_def Let_def)

theorem parse_front_matter_yaml_error_degrades_witness:
  "\<not> startswith ''plain text'' ''---'' \<and>
   parse_front_matter demo_env ''plain text'' = Inr (YMap [], ''plain text'') \<and>
   startswith ''---open'' ''---'' \<and>
   split_max 2 ''---'' ''---open'' = [[], ''open''] \<and>
   parse_front_matter demo_env ''---open'' = Inr (YMap [], ''---open'') \<and>
   startswith ''---: [---body'' ''---'' \<and>
   split_max 2 ''---'' ''---: [---body'' = [[], '': ['', ''body''] \<and>
   yaml_safe_load demo_env '': ['' = Inl (YAMLFailure ''could not parse'') \<and>
   parse_front_matter demo_env ''---: [---body'' = Inr (YMap [], ''---: [---body'') \<and>
   startswith ''---skills: 1--- body '' ''---'' \<and>
   split_max 2 ''---'' ''---skills: 1--- body '' = [[], ''skills: 1'', '' body ''] \<and>
   yaml_safe_load demo_env ''skills: 1'' = Inr (YMap [(''skills'', YNum 1)]) \<and>
   parse_front_matter demo_env ''---skills: 1--- body '' = Inr (YMap [(''skills'', YNum 1)], ''body'')"
proof -
  have a: "\<not> startswith ''plain text'' ''---''"
    by (simp add: startswith_def)
  have b: "startswith ''---: [---body'' ''---''"
    by (simp add: startswith_def)
  have c: "split_max 2 ''---'' ''---: [---body'' = [[], '': ['', ''body'']"
    by (simp add: numeral_2_eq_2 startswith_def)
  have d: "yaml_safe_load demo_env '': ['' = Inl (YAMLFailure ''could not parse'')"
    by (simp add: demo_env_def demo_yaml_def)
  have g: "startswith ''---open'' ''---''"
    by (simp add: startswith_def)
  have h: "split_max 2 ''---'' ''---open'' = [[], ''open'']"
    by (simp add: numeral_2_eq_2 startswith_def)
  have k: "startswith ''---skills: 1--- body '' ''---''"
    by (simp add: startswith_def)
  have l: "split_max 2 ''---'' ''---skills: 1--- body '' = [[], ''skills: 1'', '' body '']"
    by (simp add: numeral_2_eq_2 startswith_def)
  have m: "yaml_safe_load demo_env ''skills: 1'' = Inr (YMap [(''skills'', YNum 1)])"
    by (simp add: demo_env_def demo_yaml_def)
  have n: "strip '' body '' = ''body''"
    by (simp add: strip_def is_space_def is_space2_def is_space3_def)
  from a parse_front_matter_yaml_error_degrades [of "''plain text''" demo_env]
  have e: "parse_front_matter demo_env ''plain text'' = Inr (YMap [], ''plain text'')"
    by blast
  from g h parse_front_matter_yaml_error_degrades [of "''---open''" demo_env]
  have i: "parse_front_matter demo_env ''---open'' = Inr (YMap [], ''---open'')"
    by simp
  from b c d parse_front_matter_yaml_error_degrades [of "''---: [---body''" demo_env "''could not parse''"]
  have f: "parse_front_matter demo_env ''---: [---body'' = Inr (YMap [], ''---: [---body'')"
    by simp
  from k l m n parse_front_matter_yaml_error_degrades
    [of "''---skills: 1--- body ''" demo_env _ "YMap [(''skills'', YNum 1)]"]
  have j: "parse_front_matter demo_env ''---skills: 1--- body '' = Inr (YMap [(''skills'', YNum 1)], ''body'')"
    by simp
  from a b c d e f g h i j k l m show ?thesis by blast
qed

lemma find_first_missing:
  "\<forall>x \<in> set pre. \<not> P x \<Longrightarrow> P a \<Longrightarrow> find P (pre @ a # post) = Some a"
  by (induction pre) auto

lemma find_none_all: "\<forall>x \<in> set xs. \<not> P x \<Longrightarrow> find P xs = None"
  by (induction xs) auto

text \<open>
  C2. The router returns the first agent of the order zoning, valuation, permit,
  envelope that is not among the completed agents: whenever the order splits into
  agents that are all completed, then an agent that is not, the answer is that agent.
  When all four are completed, the answer is the synthesizer unless \<open>synthesizer\<close> is
  itself listed as completed, and the end otherwise.
\<close>

theorem route_to_next_agent_first_missing:
  "(\<forall>pre a post.
      agent_order = pre @ a # post \<and> set pre \<subseteq> set (st_completed_agents s) \<and>
      a \<notin> set (st_completed_agents s)
      \<longrightarrow> route_to_next_agent s = a) \<and>
   (set agent_order \<subseteq> set (st_completed_agents s)
      \<longrightarrow> route_to_next_agent s =
           (if ''synthesizer'' \<notin> set (st_completed_agents s) then ''synthesizer'' else ''end''))"
proof (intro conjI allI impI)
  fix pre a post
  assume h: "agent_order = pre @ a # post \<and> set pre \<subseteq> set (st_completed_agents s) \<and>
    a \<notin> set (st_completed_agents s)"
  then have "find (\<lambda>agent. agent \<notin> set (st_completed_agents s)) (pre @ a # post) = Some a"
    by (intro find_first_missing) auto
  with h show "route_to_next_agent s = a"
    by (simp add: route_to_next_agent_def Let_def)
next
  assume "set agent_order \<subseteq> set (st_completed_agents s)"
  then have "find (\<lambda>agent. agent \<notin> set (st_completed_agents s)) agent_order = None"
    by (intro find_none_all) auto
  then show "route_to_next_agent s =
           (if ''synthesizer'' \<notin> set (st_completed_agents s) then ''synthesizer'' else ''end'')"
    by (simp add: route_to_next_agent_def Let_def)
qed

theorem route_to_next_agent_first_missing_witness:
  "route_to_next_agent ((initial_state ''2512345'' ''now'')\<lparr>st_completed_agents := [''permit'', ''zoning'']\<rparr>)
     = ''valuation'' \<and>
   route_to_next_agent ((initial_state ''2512345'' ''now'')
     \<lparr>st_completed_agents := [''envelope'', ''permit'', ''valuation'', ''zoning'']\<rparr>) = ''synthesizer'' \<and>
   route_to_next_agent ((initial_state ''2512345'' ''now'')
     \<lparr>st_completed_agents := [''synthesizer'', ''envelope'', ''permit'', ''valuation'', ''zoning'']\<rparr>) = ''end''"
proof -
  let ?s1 = "(initial_state ''2512345'' ''now'')\<lparr>st_completed_agents := [''permit'', ''zoning'']\<rparr>"
  let ?s2 = "(initial_state ''2512345'' ''now'')
     \<lparr>st_completed_agents := [''envelope'', ''permit'', ''valuation'', ''zoning'']\<rparr>"
  let ?s3 = "(initial_state ''2512345'' ''now'')
     \<lparr>st_completed_agents := [''synthesizer'', ''envelope'', ''permit'', ''valuation'', ''zoning'']\<rparr>"
  have o: "agent_order = [''zoning''] @ ''valuation'' # [''permit'', ''envelope'']"
    by (simp add: agent_order_def)
  from route_to_next_agent_first_missing [of ?s1, THEN conjunct1, rule_format,
      of "[''zoning'']" "''valuation''" "[''permit'', ''envelope'']"] o
  have a: "route_to_next_agent ?s1 = ''valuation''"
    by simp
  from route_to_next_agent_first_missing [of ?s2, THEN conjunct2]
  have b: "route_to_next_agent ?s2 = ''synthesizer''"
    by (simp add: agent_order_def)
  from route_to_next_agent_first_missing [of ?s3, THEN conjunct2]
  have c: "route_to_next_agent ?s3 = ''end''"
    by (simp add: agent_order_def)
  from a b c show ?thesis by blast
qed

section \<open>The synthesizer\<close>

lemma labels_distinct: "distinct [BID, REVIEW, SKIP, INCOMPLETE]"
  by (simp add: BID_def REVIEW_def SKIP_def INCOMPLETE_def)

lemma join_head: "\<exists>rest. join sep (x # xs) = x @ rest"
  by (cases xs) auto

lemma join_append:
  "xs \<noteq> [] \<Longrightarrow> ys \<noteq> [] \<Longrightarrow> join sep (xs @ ys) = join sep xs @ sep @ join sep ys"
proof (induction sep xs rule: join.induct)
  case (1 sep)
  then show ?case by simp
next
  case (2 sep x)
  then show ?case by (cases ys) simp_all
next
  case (3 sep x y zs)
  then show ?case by simp
qed

lemma str_int_prints:
  "\<bar>i\<bar> < 10 ^ int_max_str_digits \<Longrightarrow> str_int i = Inr (show_int i)"
  by (simp add: str_int_def)

lemma ten_pow_5000_beyond_limit: "\<not> \<bar>(10::int) ^ 5000\<bar> < 10 ^ int_max_str_digits"
proof -
  have le: "(10::int) ^ 4300 \<le> 10 ^ 5000"
    by (rule power_increasing) simp_all
  have "(0::int) \<le> 10 ^ 5000"
    by (rule zero_le_power) simp
  then have "\<bar>(10::int) ^ 5000\<bar> = 10 ^ 5000"
    by (rule abs_of_nonneg)
  with le show ?thesis
    unfolding int_max_str_digits_def by (simp only: not_less)
qed

lemma str_int_beyond_limit:
  "str_int (10 ^ 5000) = Inl (Exn ValueError
     ''Exceeds the limit (4300 digits) for integer string conversion; use sys.set_int_max_str_digits() to increase the limit'')"
  unfolding str_int_def using ten_pow_5000_beyond_limit by (simp only: if_False)

lemma list_shape:
  "ys \<noteq> [] \<Longrightarrow> last ys = h \<Longrightarrow> \<exists>front. a # ys = a # front @ [h]"
  using append_butlast_last_id [of ys] by (intro exI [of _ "butlast ys"]) simp

text \<open>
  A record whose \<open>arv\<close> is present and zero, with a maximum bid, a risk score of 15 and no
  open violation, is recommended \<open>INCOMPLETE\<close>, not \<open>BID\<close>: the synthesizer tests
  truthiness, not presence.
\<close>

theorem recommendation_present_counterexample:
  "pd_arv ((PropertyData ''2512345'')\<lparr>pd_arv := Some 0, pd_max_bid := Some 165000, pd_permit_risk_score := 15\<rparr>)
     \<noteq> None \<and>
   pd_max_bid ((PropertyData ''2512345'')\<lparr>pd_arv := Some 0, pd_max_bid := Some 165000, pd_permit_risk_score := 15\<rparr>)
     \<noteq> None \<and>
   pd_permit_risk_score ((PropertyData ''2512345'')\<lparr>pd_arv := Some 0, pd_max_bid := Some 165000, pd_permit_risk_score := 15\<rparr>)
     < 30 \<and>
   pd_open_violations ((PropertyData ''2512345'')\<lparr>pd_arv := Some 0, pd_max_bid := Some 165000, pd_permit_risk_score := 15\<rparr>)
     = [] \<and>
   recommendation ((PropertyData ''2512345'')\<lparr>pd_arv := Some 0, pd_max_bid := Some 165000, pd_permit_risk_score := 15\<rparr>)
     = INCOMPLETE \<and>
   recommendation ((PropertyData ''2512345'')\<lparr>pd_arv := Some 0, pd_max_bid := Some 165000, pd_permit_risk_score := 15\<rparr>)
     \<noteq> BID"
  by (simp add: PropertyData_def recommendation_def truthy_num_def BID_def INCOMPLETE_def)

text \<open>
  C1. When \<open>arv\<close> and \<open>max_bid\<close> are both present and not zero, the recommendation is
  \<open>BID\<close> if the risk score is below 30 and there is no open violation, else \<open>REVIEW\<close> if
  the risk score is below 50, else \<open>SKIP\<close>. When either is absent or zero, the
  recommendation is \<open>INCOMPLETE\<close>, whatever the risk score.
\<close>

theorem recommendation_rule:
  "((\<exists>a b. pd_arv p = Some a \<and> a \<noteq> 0 \<and> pd_max_bid p = Some b \<and> b \<noteq> 0) \<longrightarrow>
      recommendation p =
        (if pd_permit_risk_score p < 30 \<and> pd_open_violations p = [] then BID
         else if pd_permit_risk_score p < 50 then REVIEW
         else SKIP)) \<and>
   (pd_arv p = None \<or> pd_arv p = Some 0 \<or> pd_max_bid p = None \<or> pd_max_bid p = Some 0 \<longrightarrow>
      recommendation p = INCOMPLETE)"
  by (auto simp: recommendation_def truthy_num_def split: option.splits)

theorem recommendation_rule_witness:
  "recommendation ((PropertyData ''2512345'')\<lparr>pd_arv := Some 325000, pd_max_bid := Some 165000,
      pd_permit_risk_score := 15\<rparr>) = BID \<and>
   recommendation ((PropertyData ''2512345'')\<lparr>pd_arv := Some 325000, pd_max_bid := Some 165000,
      pd_permit_risk_score := 15, pd_open_violations := [[(''code'', PStr ''unsafe'')]]\<rparr>) = REVIEW \<and>
   recommendation ((PropertyData ''2512345'')\<lparr>pd_arv := Some 325000, pd_max_bid := Some 165000,
      pd_permit_risk_score := 55\<rparr>) = SKIP \<and>
   recommendation ((PropertyData ''2512345'')\<lparr>pd_max_bid := Some 165000, pd_permit_risk_score := 15\<rparr>)
     = INCOMPLETE"
proof -
  let ?p1 = "(PropertyData ''2512345'')\<lparr>pd_arv := Some 325000, pd_max_bid := Some 165000,
      pd_permit_risk_score := 15\<rparr>"
  let ?p2 = "(PropertyData ''2512345'')\<lparr>pd_arv := Some 325000, pd_max_bid := Some 165000,
      pd_permit_risk_score := 15, pd_open_violations := [[(''code'', PStr ''unsafe'')]]\<rparr>"
  let ?p3 = "(PropertyData ''2512345'')\<lparr>pd_arv := Some 325000, pd_max_bid := Some 165000,
      pd_permit_risk_score := 55\<rparr>"
  let ?p4 = "(PropertyData ''2512345'')\<lparr>pd_max_bid := Some 165000, pd_permit_risk_score := 15\<rparr>"
  from recommendation_rule [of ?p1, THEN conjunct1] have a: "recommendation ?p1 = BID"
    by (simp add: PropertyData_def)
  from recommendation_rule [of ?p2, THEN conjunct1] have b: "recommendation ?p2 = REVIEW"
    by (simp add: PropertyData_def)
  from recommendation_rule [of ?p3, THEN conjunct1] have c: "recommendation ?p3 = SKIP"
    by (simp add: PropertyData_def)
  from recommendation_rule [of ?p4, THEN conjunct2] have d: "recommendation ?p4 = INCOMPLETE"
    by (simp add: PropertyData_def)
  from a b c d show ?thesis by blast
qed

text \<open>
  A state whose permit risk score has 5001 digits. The report line that prints the
  score raises a \<^verbatim>\<open>ValueError\<close>, and the synthesizer, which has no \<^verbatim>\<open>try\<close> block, raises it
  to its caller: no report is produced.
\<close>

theorem synthesizer_node_raises_counterexample:
  "synthesizer_node demo_env
     ((initial_state ''2512345'' ''now'')
        \<lparr>st_property_data := (PropertyData ''2512345'')\<lparr>pd_permit_risk_score := 10 ^ 5000\<rparr>\<rparr>) =
     Inl (Exn ValueError
       ''Exceeds the limit (4300 digits) for integer string conversion; use sys.set_int_max_str_digits() to increase the limit'')"
proof -
  define big :: int where "big = 10 ^ 5000"
  have s: "str_int big = Inl (Exn ValueError
       ''Exceeds the limit (4300 digits) for integer string conversion; use sys.set_int_max_str_digits() to increase the limit'')"
    unfolding big_def by (rule str_int_beyond_limit)
  have "synthesizer_node demo_env
     ((initial_state ''2512345'' ''now'')
        \<lparr>st_property_data := (PropertyData ''2512345'')\<lparr>pd_permit_risk_score := big\<rparr>\<rparr>) =
     Inl (Exn ValueError
       ''Exceeds the limit (4300 digits) for integer string conversion; use sys.set_int_max_str_digits() to increase the limit'')"
    by (simp add: synthesizer_node_def report_lines_def s)
  then show ?thesis unfolding big_def .
qed

text \<open>
  C8. On every state whose permit risk score is within the range that Python prints
  (fewer than 4301 digits), whatever else is missing from the record, the synthesizer
  returns a state and raises nothing. The report it writes is the report lines, the
  recommendation, and the error appendix when there are errors, joined by line breaks:
  it starts with the title line, and the recommendation is the line after the
  recommendation heading. The message it appends announces the same recommendation,
  and nothing else in the state changes. The recommendation is one of the four texts
  \<open>BID\<close>, \<open>REVIEW\<close>, \<open>SKIP\<close>, \<open>INCOMPLETE\<close>, which differ from one another, and it is the
  same for two records that agree on \<open>arv\<close>, \<open>max_bid\<close>, the risk score and the open
  violations.
\<close>

theorem synthesizer_node_reports:
  assumes "\<bar>pd_permit_risk_score (st_property_data s)\<bar> < 10 ^ int_max_str_digits"
  shows "\<exists>s' front before after.
           synthesizer_node E s = Inr s' \<and>
           report_lines E s = Inr (''# ZoneWise Property Analysis Report'' # front @ [''## Recommendation'']) \<and>
           st_final_report s' =
             Some (join nl ((''# ZoneWise Property Analysis Report'' # front @ [''## Recommendation''])
                            @ recommendation (st_property_data s)
                            # (if st_errors s = [] then []
                               else [[], ''## Errors''] @ map (\<lambda>e. ''- '' @ e) (st_errors s)))) \<and>
           st_final_report s' =
             Some (''# ZoneWise Property Analysis Report'' @ before @ nl @ ''## Recommendation'' @ nl
                   @ recommendation (st_property_data s) @ after) \<and>
           st_final_report s' \<noteq> Some [] \<and>
           st_messages s' = st_messages s @
             [AIMessage (''[Synthesizer] Generated final report with recommendation: '' @
                         recommendation (st_property_data s)) ''synthesizer''] \<and>
           s' = s\<lparr>st_final_report := st_final_report s', st_messages := st_messages s'\<rparr> \<and>
           recommendation (st_property_data s) \<in> {BID, REVIEW, SKIP, INCOMPLETE} \<and>
           distinct [BID, REVIEW, SKIP, INCOMPLETE] \<and>
           recommendation (st_property_data s) =
             recommendation
               ((PropertyData [])
                  \<lparr>pd_arv := pd_arv (st_property_data s),
                   pd_max_bid := pd_max_bid (st_property_data s),
                   pd_open_violations := pd_open_violations (st_property_data s),
                   pd_permit_risk_score := pd_permit_risk_score (st_property_data s)\<rparr>)"
proof -
  let ?title = "''# ZoneWise Property Analysis Report''"
  let ?rec = "recommendation (st_property_data s)"
  let ?app = "if st_errors s = [] then [] else [[], ''## Errors''] @ map (\<lambda>e. ''- '' @ e) (st_errors s)"
  note p = str_int_prints [OF assms]
  obtain ys where ys: "report_lines E s = Inr (?title # ys)" "ys \<noteq> []" "last ys = ''## Recommendation''"
    by (simp add: report_lines_def p Let_def)
  from list_shape [OF ys(2) ys(3), of ?title] ys(1)
  have "\<exists>front. report_lines E s = Inr (?title # front @ [''## Recommendation''])"
    by simp
  then obtain front where ls: "report_lines E s = Inr (?title # front @ [''## Recommendation''])"
    by blast
  let ?lines = "?title # front @ [''## Recommendation'']"
  define s' where "s' = s
     \<lparr>st_final_report := Some (join nl (?lines @ ?rec # ?app)),
      st_messages := st_messages s @
        [AIMessage (''[Synthesizer] Generated final report with recommendation: '' @ ?rec) ''synthesizer'']\<rparr>"
  have run: "synthesizer_node E s = Inr s'"
    unfolding synthesizer_node_def s'_def ls by (simp add: Let_def)
  have rep: "st_final_report s' = Some (join nl (?lines @ ?rec # ?app))"
    by (simp add: s'_def)
  obtain before where before: "join nl (?title # front) = ?title @ before"
    using join_head [of nl ?title front] by blast
  obtain after where after: "join nl (?rec # ?app) = ?rec @ after"
    using join_head [of nl ?rec ?app] by blast
  have "join nl (?lines @ ?rec # ?app) = join nl ?lines @ nl @ join nl (?rec # ?app)"
    by (rule join_append) simp_all
  moreover have "join nl ?lines = join nl (?title # front) @ nl @ ''## Recommendation''"
    using join_append [of "?title # front" "[''## Recommendation'']" nl] by simp
  ultimately have whole: "join nl (?lines @ ?rec # ?app) =
      ?title @ before @ nl @ ''## Recommendation'' @ nl @ ?rec @ after"
    using before after by simp
  have a: "st_final_report s' =
      Some (?title @ before @ nl @ ''## Recommendation'' @ nl @ ?rec @ after)"
    using rep whole by simp
  have b: "st_final_report s' \<noteq> Some []"
    using a by simp
  have c: "st_messages s' = st_messages s @
        [AIMessage (''[Synthesizer] Generated final report with recommendation: '' @ ?rec) ''synthesizer'']"
    by (simp add: s'_def)
  have d: "s' = s\<lparr>st_final_report := st_final_report s', st_messages := st_messages s'\<rparr>"
    by (simp add: s'_def)
  have e: "?rec \<in> {BID, REVIEW, SKIP, INCOMPLETE}"
    by (simp add: recommendation_def)
  have f: "?rec = recommendation
               ((PropertyData [])
                  \<lparr>pd_arv := pd_arv (st_property_data s),
                   pd_max_bid := pd_max_bid (st_property_data s),
                   pd_open_violations := pd_open_violations (st_property_data s),
                   pd_permit_risk_score := pd_permit_risk_score (st_property_data s)\<rparr>)"
    by (simp add: recommendation_def)
  show ?thesis
    apply (rule exI [of _ s'], rule exI [of _ front], rule exI [of _ before], rule exI [of _ after])
    apply (intro conjI)
    apply (fact run ls rep a b c d e f labels_distinct)+
    done
qed

theorem synthesizer_node_reports_witness:
  "\<bar>pd_permit_risk_score (st_property_data (initial_state ''2512345'' ''now''))\<bar> < 10 ^ int_max_str_digits \<and>
   (\<exists>s'. synthesizer_node demo_env (initial_state ''2512345'' ''now'') = Inr s' \<and>
      st_final_report s' =
        Some (join nl
          [''# ZoneWise Property Analysis Report'',
           ''**Parcel ID:** 2512345'',
           ''**Generated:** now'',
           [],
           ''## Zoning Summary'',
           ''- **District:** Unknown'',
           ''- **Max Height:** N/A ft'',
           ''- **Max Buildable:** N/A'',
           [],
           ''## Valuation Summary'',
           ''- **Estimated ARV:** N/A'',
           ''- **Max Bid:** N/A'',
           ''- **Comparable Sales:** 0 found'',
           [],
           ''## Permit Analysis'',
           ''- **Permit Risk Score:** 0/100'',
           ''- **Open Violations:** 0'',
           ''- **Historical Permits:** 0'',
           [],
           ''## Sun/Shadow Analysis'',
           ''- **Average Sun Hours:** N/A hrs/day'',
           ''- **3D Envelope:** Not generated'',
           [],
           ''## Recommendation'',
           INCOMPLETE]) \<and>
      st_messages s' =
        [HumanMessage ''Analyze property: 2512345'',
         AIMessage (''[Synthesizer] Generated final report with recommendation: '' @ INCOMPLETE)
           ''synthesizer''])"
proof -
  let ?s = "initial_state ''2512345'' ''now''"
  have h: "\<bar>pd_permit_risk_score (st_property_data ?s)\<bar> < 10 ^ int_max_str_digits"
    by (simp add: initial_state_def PropertyData_def)
  have r: "recommendation (st_property_data ?s) = INCOMPLETE"
    by (simp add: recommendation_def initial_state_def PropertyData_def truthy_num_def)
  have z: "show_int 0 = ''0''" "show_nat 0 = ''0''"
    by code_simp+
  have l: "report_lines demo_env ?s = Inr
          [''# ZoneWise Property Analysis Report'',
           ''**Parcel ID:** 2512345'',
           ''**Generated:** now'',
           [],
           ''## Zoning Summary'',
           ''- **District:** Unknown'',
           ''- **Max Height:** N/A ft'',
           ''- **Max Buildable:** N/A'',
           [],
           ''## Valuation Summary'',
           ''- **Estimated ARV:** N/A'',
           ''- **Max Bid:** N/A'',
           ''- **Comparable Sales:** 0 found'',
           [],
           ''## Permit Analysis'',
           ''- **Permit Risk Score:** 0/100'',
           ''- **Open Violations:** 0'',
           ''- **Historical Permits:** 0'',
           [],
           ''## Sun/Shadow Analysis'',
           ''- **Average Sun Hours:** N/A hrs/day'',
           ''- **3D Envelope:** Not generated'',
           [],
           ''## Recommendation'']"
    using str_int_prints [OF h]
    by (simp add: report_lines_def initial_state_def PropertyData_def str_or_def num_or_na_def
        if_truthy_def z Let_def del: show_nat.simps)
  from synthesizer_node_reports [OF h, of demo_env] obtain s' front where
    s': "synthesizer_node demo_env ?s = Inr s'"
      "report_lines demo_env ?s = Inr (''# ZoneWise Property Analysis Report'' # front @ [''## Recommendation''])"
      "st_final_report s' =
         Some (join nl ((''# ZoneWise Property Analysis Report'' # front @ [''## Recommendation''])
                        @ recommendation (st_property_data ?s)
                        # (if st_errors ?s = [] then []
                           else [[], ''## Errors''] @ map (\<lambda>e. ''- '' @ e) (st_errors ?s))))"
      "st_messages s' = st_messages ?s @
             [AIMessage (''[Synthesizer] Generated final report with recommendation: '' @
                         recommendation (st_property_data ?s)) ''synthesizer'']"
    by blast
  have e: "st_errors ?s = []" "st_messages ?s = [HumanMessage ''Analyze property: 2512345'']"
    by (simp_all add: initial_state_def)
  from s'(2) l have "''# ZoneWise Property Analysis Report'' # front @ [''## Recommendation''] =
          [''# ZoneWise Property Analysis Report'',
           ''**Parcel ID:** 2512345'',
           ''**Generated:** now'',
           [],
           ''## Zoning Summary'',
           ''- **District:** Unknown'',
           ''- **Max Height:** N/A ft'',
           ''- **Max Buildable:** N/A'',
           [],
           ''## Valuation Summary'',
           ''- **Estimated ARV:** N/A'',
           ''- **Max Bid:** N/A'',
           ''- **Comparable Sales:** 0 found'',
           [],
           ''## Permit Analysis'',
           ''- **Permit Risk Score:** 0/100'',
           ''- **Open Violations:** 0'',
           ''- **Historical Permits:** 0'',
           [],
           ''## Sun/Shadow Analysis'',
           ''- **Average Sun Hours:** N/A hrs/day'',
           ''- **3D Envelope:** Not generated'',
           [],
           ''## Recommendation'']"
    by simp
  with s'(3) r e have rep: "st_final_report s' =
        Some (join nl
          ([''# ZoneWise Property Analysis Report'',
           ''**Parcel ID:** 2512345'',
           ''**Generated:** now'',
           [],
           ''## Zoning Summary'',
           ''- **District:** Unknown'',
           ''- **Max Height:** N/A ft'',
           ''- **Max Buildable:** N/A'',
           [],
           ''## Valuation Summary'',
           ''- **Estimated ARV:** N/A'',
           ''- **Max Bid:** N/A'',
           ''- **Comparable Sales:** 0 found'',
           [],
           ''## Permit Analysis'',
           ''- **Permit Risk Score:** 0/100'',
           ''- **Open Violations:** 0'',
           ''- **Historical Permits:** 0'',
           [],
           ''## Sun/Shadow Analysis'',
           ''- **Average Sun Hours:** N/A hrs/day'',
           ''- **3D Envelope:** Not generated'',
           [],
           ''## Recommendation''] @ [INCOMPLETE]))"
    by simp
  have msg: "st_messages s' =
        [HumanMessage ''Analyze property: 2512345'',
         AIMessage (''[Synthesizer] Generated final report with recommendation: '' @ INCOMPLETE)
           ''synthesizer'']"
    using s'(4) r e by simp
  from h s'(1) rep msg show ?thesis by simp
qed

section \<open>Running the small installation\<close>

lemma small_int_prints: "\<bar>i\<bar> < 100 \<Longrightarrow> str_int i = Inr (show_int i)"
proof -
  assume a: "\<bar>i\<bar> < 100"
  have "(10::int) ^ 2 \<le> 10 ^ int_max_str_digits"
    unfolding int_max_str_digits_def by (rule power_increasing) simp_all
  with a have "\<bar>i\<bar> < 10 ^ int_max_str_digits"
    by simp
  then show ?thesis
    by (simp add: str_int_def)
qed

lemma demo_manifest_loads:
  "load_manifest demo_env ''./zonewise/skills'' tr = (Inr demo_manifest, tr @ [ManifestRead])"
  by (simp add: load_manifest_def Let_def demo_env_def demo_norm_def startswith_def demo_files_def
      demo_yaml_def)

lemma demo_descriptions: "\<exists>d. get_skill_descriptions demo_manifest = Inr d"
  by (simp add: get_skill_descriptions_def demo_manifest_def demo_skill_def small_int_prints)

lemma demo_create_agent:
  "\<exists>a. create_agent demo_env model ''./zonewise/skills'' tr = (Inr a, tr @ [ManifestRead])"
  using demo_descriptions by (auto simp: create_agent_def demo_manifest_loads)

lemma demo_skill_parses:
  "parse_front_matter demo_env ''---name: zoning-analysis---Use the code.''
     = Inr (YMap [(''name'', YStr ''zoning-analysis'')], ''Use the code.'')"
  by (simp add: parse_front_matter_def startswith_def strip_def is_space_def is_space2_def
      is_space3_def numeral_2_eq_2 demo_env_def demo_yaml_def Let_def)

lemma demo_skill_path:
  "path_join demo_env (path_parent demo_env ''./zonewise/skills'') (sm_path demo_skill)
     = ''zonewise/skills/zoning-analysis/SKILL.md''"
  by (simp add: demo_env_def demo_norm_def startswith_def demo_parent_def demo_skill_def)

lemma demo_skill_file:
  "files demo_env ''zonewise/skills/zoning-analysis/SKILL.md''
     = Some ''---name: zoning-analysis---Use the code.''"
  by (simp add: demo_env_def demo_files_def)

lemma demo_skill_found:
  "find (\<lambda>s. sm_name s = ''zoning-analysis'') (mf_skills demo_manifest) = Some demo_skill"
  by (simp add: demo_manifest_def demo_skill_def)

lemma demo_skill_content:
  "load_skill_content demo_env ''./zonewise/skills'' ''zoning-analysis'' demo_manifest tr
     = (Inr demo_loaded, tr @ [SkillRead ''zoning-analysis''])"
  by (simp add: load_skill_content_def demo_skill_found demo_skill_path demo_skill_file
      demo_skill_parses demo_loaded_def Let_def)

lemma demo_load_skill:
  "load_skill_tool demo_env ''zoning-analysis'' AgentDependencies tr =
     (Inr (''# zoning-analysis Skill'' @ nl @ nl @ ''Use the code.''),
      AgentDependencies\<lparr>ad_manifest := Some demo_manifest,
        ad_loaded_skills := [''zoning-analysis'' \<mapsto> demo_loaded]\<rparr>,
      tr @ [ManifestRead, SkillRead ''zoning-analysis''])"
proof -
  have a: "ad_loaded_skills AgentDependencies ''zoning-analysis'' = None"
    "ad_manifest AgentDependencies = None"
    "ad_skills_path AgentDependencies = ''./zonewise/skills''"
    "ad_skills_path (AgentDependencies\<lparr>ad_manifest := Some demo_manifest\<rparr>) = ''./zonewise/skills''"
    "ad_loaded_skills (AgentDependencies\<lparr>ad_manifest := Some demo_manifest\<rparr>) = Map.empty"
    by (simp_all add: AgentDependencies_def)
  have c: "ls_content demo_loaded = ''Use the code.''"
    by (simp add: demo_loaded_def)
  show ?thesis
    by (simp add: load_skill_tool_def ensure_manifest_def a demo_manifest_loads demo_skill_content c Let_def)
qed

lemma demo_invoke_loads_skill:
  "invoke_agent demo_env loads_skill query tr
     = (Inr ''ok'', tr @ [ManifestRead, ManifestRead, SkillRead ''zoning-analysis''])"
proof -
  obtain a where a: "create_agent demo_env ''anthropic:claude-sonnet-4-20250514'' ''./zonewise/skills'' tr
      = (Inr a, tr @ [ManifestRead])"
    using demo_create_agent by blast
  show ?thesis
    by (simp add: invoke_agent_def a agent_run_def loads_skill_def demo_load_skill Let_def)
qed

lemma demo_invoke_answers:
  "invoke_agent demo_env answers query tr = (Inr ''ok'', tr @ [ManifestRead])"
proof -
  obtain a where a: "create_agent demo_env ''anthropic:claude-sonnet-4-20250514'' ''./zonewise/skills'' tr
      = (Inr a, tr @ [ManifestRead])"
    using demo_create_agent by blast
  show ?thesis
    by (simp add: invoke_agent_def a agent_run_def answers_def Let_def)
qed


lemma demo_replace:
  "replace_all ''/SKILL.md'' [] (sm_path demo_skill) = ''skills/zoning-analysis''"
  by (simp add: replace_all_def demo_skill_def startswith_def)

lemma demo_reference_path:
  "path_join demo_env (path_join demo_env
      (path_join demo_env (path_parent demo_env ''./zonewise/skills'') ''skills/zoning-analysis'')
      ''references'') ''setbacks.md''
     = ''zonewise/skills/zoning-analysis/references/setbacks.md''"
  by (simp add: demo_env_def demo_norm_def startswith_def demo_parent_def)

lemma demo_reference_file:
  "files demo_env ''zonewise/skills/zoning-analysis/references/setbacks.md'' = Some ''Front 25 ft''"
  by (simp add: demo_env_def demo_files_def)

lemma demo_reference_content:
  "load_reference_content demo_env ''./zonewise/skills'' ''zoning-analysis'' ''setbacks.md'' demo_manifest tr
     = (Inr demo_doc, tr @ [ReferenceRead ''zoning-analysis'' ''setbacks.md''])"
  by (simp add: load_reference_content_def demo_skill_found demo_replace demo_reference_path
      demo_reference_file demo_doc_def Let_def)

lemma bare_env_manifest:
  "files bare_env (path_join bare_env ''./zonewise/skills'' ''skills-manifest.yaml'') = None"
  by (simp add: bare_env_def)

lemma bare_env_path:
  "path_join bare_env ''./zonewise/skills'' ''skills-manifest.yaml''
     = ''zonewise/skills/skills-manifest.yaml''"
  by (simp add: bare_env_def demo_env_def demo_norm_def startswith_def)

section \<open>Stage failure in the sequential workflow\<close>

lemma yaml_exn_Exception: "is_Exception (yaml_exn failure)"
  by (cases failure) simp_all

lemma load_manifest_raises_Exception:
  "load_manifest E p tr = (Inl e, tr') \<Longrightarrow> is_Exception e"
  by (auto simp: load_manifest_def Let_def yaml_exn_Exception split: option.splits sum.splits)

lemma parse_front_matter_raises:
  "parse_front_matter E content = Inl e \<Longrightarrow> is_Exception e"
  by (auto simp: parse_front_matter_def Let_def split: if_splits sum.splits yaml_failure.splits)

lemma load_skill_content_raises:
  "load_skill_content E p n m tr = (Inl e, tr') \<Longrightarrow> is_Exception e"
  by (auto simp: load_skill_content_def Let_def split: option.splits prod.splits sum.splits
      dest: parse_front_matter_raises)

lemma str_int_raises: "str_int i = Inl e \<Longrightarrow> is_Exception e"
  by (auto simp: str_int_def split: if_splits)

lemma skill_lines_raises: "skill_lines skills = Inl e \<Longrightarrow> is_Exception e"
  by (induction skills) (auto split: sum.splits dest: str_int_raises)

lemma get_skill_descriptions_raises: "get_skill_descriptions m = Inl e \<Longrightarrow> is_Exception e"
  by (auto simp: get_skill_descriptions_def split: sum.splits dest: skill_lines_raises)

lemma is_FileNotFound_or_ValueError_Exception:
  "is_FileNotFound_or_ValueError e \<Longrightarrow> is_Exception e"
  by (cases e rule: is_FileNotFound_or_ValueError.cases) simp_all

lemma load_reference_content_raises:
  "load_reference_content E p n r m tr = (Inl e, tr') \<Longrightarrow> is_FileNotFound_or_ValueError e"
  by (auto simp: load_reference_content_def Let_def split: option.splits)

lemma ensure_manifest_raises_Exception:
  "ensure_manifest E d tr = (Inl e, tr') \<Longrightarrow> is_Exception e"
  by (auto simp: ensure_manifest_def split: option.splits dest: load_manifest_raises_Exception)

lemma load_skill_tool_raises_Exception:
  assumes "load_skill_tool E n d tr = (Inl e, d', tr')"
  shows "is_Exception e"
proof (cases "ad_loaded_skills d n")
  case (Some sk)
  with assms show ?thesis by (simp add: load_skill_tool_def)
next
  case None
  obtain rm tr1 where em: "ensure_manifest E d tr = (rm, tr1)"
    by (cases "ensure_manifest E d tr") auto
  show ?thesis
  proof (cases rm)
    case (Inl x)
    with assms None em have "x = e" by (simp add: load_skill_tool_def)
    with em Inl show ?thesis by (auto dest: ensure_manifest_raises_Exception)
  next
    case (Inr m)
    obtain rc tr2 where lc: "load_skill_content E (ad_skills_path d) n m tr1 = (rc, tr2)"
      by (cases "load_skill_content E (ad_skills_path d) n m tr1") auto
    show ?thesis
    proof (cases rc)
      case (Inl x)
      with assms None em \<open>rm = Inr m\<close> lc have "x = e"
        by (simp add: load_skill_tool_def Let_def split: if_splits)
      with lc Inl show ?thesis by (auto dest: load_skill_content_raises)
    next
      case (Inr skill)
      with assms None em \<open>rm = Inr m\<close> lc show ?thesis
        by (simp add: load_skill_tool_def Let_def)
    qed
  qed
qed

lemma read_reference_tool_raises_Exception:
  assumes "read_reference_tool E n r d tr = (Inl e, d', tr')"
  shows "is_Exception e"
proof (cases "ad_loaded_references d (n @ '':'' @ r)")
  case (Some c)
  with assms show ?thesis by (simp add: read_reference_tool_def Let_def)
next
  case None
  obtain rm tr1 where em: "ensure_manifest E d tr = (rm, tr1)"
    by (cases "ensure_manifest E d tr") auto
  show ?thesis
  proof (cases rm)
    case (Inl x)
    with assms None em have "x = e" by (simp add: read_reference_tool_def Let_def)
    with em Inl show ?thesis by (auto dest: ensure_manifest_raises_Exception)
  next
    case (Inr m)
    obtain rc tr2 where lc: "load_reference_content E (ad_skills_path d) n r m tr1 = (rc, tr2)"
      by (cases "load_reference_content E (ad_skills_path d) n r m tr1") auto
    show ?thesis
    proof (cases rc)
      case (Inl x)
      with assms None em \<open>rm = Inr m\<close> lc have "x = e"
        by (simp add: read_reference_tool_def Let_def split: if_splits)
      with lc Inl show ?thesis
        by (auto dest: load_reference_content_raises is_FileNotFound_or_ValueError_Exception)
    next
      case (Inr doc)
      with assms None em \<open>rm = Inr m\<close> lc show ?thesis
        by (simp add: read_reference_tool_def Let_def)
    qed
  qed
qed

lemma call_tool_raises_Exception:
  "call_tool E c d tr = (Inl e, d', tr') \<Longrightarrow> is_Exception e"
  by (cases c) (auto dest: load_skill_tool_raises_Exception read_reference_tool_raises_Exception)

lemma run_tools_raises_Exception:
  "run_tools E cs d tr = (Some e, d', tr') \<Longrightarrow> is_Exception e"
proof (induction cs arbitrary: d tr)
  case Nil
  then show ?case by simp
next
  case (Cons c cs)
  obtain r d1 tr1 where c: "call_tool E c d tr = (r, d1, tr1)"
    by (cases "call_tool E c d tr") auto
  show ?case
  proof (cases r)
    case (Inl x)
    with c Cons.prems have "x = e" by simp
    with c Inl show ?thesis by (auto dest: call_tool_raises_Exception)
  next
    case (Inr out)
    with c Cons.prems have "run_tools E cs d1 tr1 = (Some e, d', tr')" by simp
    then show ?thesis by (rule Cons.IH)
  qed
qed

lemma create_agent_raises_Exception:
  "create_agent E model p tr = (Inl e, tr') \<Longrightarrow> is_Exception e"
  by (auto simp: create_agent_def split: prod.splits sum.splits
      dest: load_manifest_raises_Exception get_skill_descriptions_raises)

lemma invoke_agent_raises:
  assumes "invoke_agent E capability query tr = (Inl e, tr')"
  shows "is_Exception e \<or> rs_outcome (capability query) = Inl e"
proof -
  obtain ra tr1 where ca:
    "create_agent E ''anthropic:claude-sonnet-4-20250514'' ''./zonewise/skills'' tr = (ra, tr1)"
    by (cases "create_agent E ''anthropic:claude-sonnet-4-20250514'' ''./zonewise/skills'' tr") auto
  show ?thesis
  proof (cases ra)
    case (Inl x)
    with ca assms have "x = e" by (simp add: invoke_agent_def)
    with ca Inl show ?thesis by (auto dest: create_agent_raises_Exception)
  next
    case (Inr a)
    obtain rt d' tr2 where rt:
      "run_tools E (rs_tool_calls (capability query)) AgentDependencies tr1 = (rt, d', tr2)"
      by (cases "run_tools E (rs_tool_calls (capability query)) AgentDependencies tr1") auto
    show ?thesis
    proof (cases rt)
      case None
      with ca Inr rt assms show ?thesis
        by (simp add: invoke_agent_def agent_run_def Let_def)
    next
      case (Some x)
      with ca Inr rt assms have "x = e"
        by (simp add: invoke_agent_def agent_run_def Let_def)
      with rt Some show ?thesis by (auto dest: run_tools_raises_Exception)
    qed
  qed
qed

lemma zoning_agent_node_failure:
  "invoke_agent E capability
     (zoning_query (st_parcel_id s))
     tr = (Inl e, tr') \<Longrightarrow> is_Exception e \<Longrightarrow>
   zoning_agent_node E capability s tr =
     (Inr (s\<lparr>st_errors := st_errors s @ [''Zoning agent error: '' @ exn_str e]\<rparr>), tr')"
  by (simp add: zoning_agent_node_def Let_def)


lemma permit_agent_node_failure:
  "invoke_agent E capability
     (permit_query (st_parcel_id s))
     tr = (Inl e, tr') \<Longrightarrow> is_Exception e \<Longrightarrow>
   permit_agent_node E capability s tr =
     (Inr (s\<lparr>st_errors := st_errors s @ [''Permit agent error: '' @ exn_str e]\<rparr>), tr')"
  by (simp add: permit_agent_node_def Let_def)


text \<open>When the capability fails with an \<^verbatim>\<open>Exception\<close>, so does the agent call.\<close>

lemma invoke_agent_fails:
  assumes "rs_outcome (capability query) = Inl e0" and "is_Exception e0"
  shows "\<exists>e tr'. invoke_agent E capability query tr = (Inl e, tr') \<and> is_Exception e"
proof -
  obtain r tr' where r: "invoke_agent E capability query tr = (r, tr')"
    by (cases "invoke_agent E capability query tr") auto
  show ?thesis
  proof (cases r)
    case (Inl e)
    with r invoke_agent_raises [of E capability query tr e tr'] assms show ?thesis
      by auto
  next
    case (Inr out)
    obtain ra tr1 where ca:
      "create_agent E ''anthropic:claude-sonnet-4-20250514'' ''./zonewise/skills'' tr = (ra, tr1)"
      by (cases "create_agent E ''anthropic:claude-sonnet-4-20250514'' ''./zonewise/skills'' tr") auto
    obtain rt d' tr2 where rt:
      "run_tools E (rs_tool_calls (capability query)) AgentDependencies tr1 = (rt, d', tr2)"
      by (cases "run_tools E (rs_tool_calls (capability query)) AgentDependencies tr1") auto
    from r Inr ca rt assms have False
      by (cases ra; cases rt) (simp_all add: invoke_agent_def agent_run_def Let_def)
    then show ?thesis ..
  qed
qed

lemma route_zoning:
  "''zoning'' \<notin> set (st_completed_agents s) \<Longrightarrow> route_to_next_agent s = ''zoning''"
  by (simp add: route_to_next_agent_def agent_order_def Let_def)

lemma run_graph_zoning_loop:
  assumes "\<forall>k tr. \<exists>e tr'. invoke_agent E (capability k) (zoning_query (st_parcel_id s)) tr = (Inl e, tr')
              \<and> is_Exception e"
    and "''zoning'' \<notin> set (st_completed_agents s)"
  shows "\<exists>es tr'. run_graph E capability budget k s tr
            = (GraphRecursionError (s\<lparr>st_errors := st_errors s @ es\<rparr>), tr') \<and>
          length es = budget \<and> (\<forall>x \<in> set es. startswith x ''Zoning agent error: '')"
  using assms
proof (induction budget arbitrary: k s tr)
  case 0
  then show ?case by simp
next
  case (Suc budget)
  from Suc.prems(1) obtain e tr1 where
    e: "invoke_agent E (capability k) (zoning_query (st_parcel_id s)) tr = (Inl e, tr1)" "is_Exception e"
    by blast
  let ?s1 = "s\<lparr>st_errors := st_errors s @ [''Zoning agent error: '' @ exn_str e]\<rparr>"
  from zoning_agent_node_failure [where capability = "capability k", OF e]
  have node: "zoning_agent_node E (capability k) s tr = (Inr ?s1, tr1)" .
  have p1: "\<forall>k tr. \<exists>e tr'. invoke_agent E (capability k) (zoning_query (st_parcel_id ?s1)) tr = (Inl e, tr')
              \<and> is_Exception e"
    using Suc.prems(1) by simp
  have p2: "''zoning'' \<notin> set (st_completed_agents ?s1)"
    using Suc.prems(2) by simp
  from Suc.IH [where s = ?s1 and k = "Suc k" and tr = tr1, OF p1 p2] obtain es tr' where
    ih: "run_graph E capability budget (Suc k) ?s1 tr1
           = (GraphRecursionError (?s1\<lparr>st_errors := st_errors ?s1 @ es\<rparr>), tr')"
      "length es = budget" "\<forall>x \<in> set es. startswith x ''Zoning agent error: ''"
    by blast
  have step: "run_graph E capability (Suc budget) k s tr = run_graph E capability budget (Suc k) ?s1 tr1"
    using Suc.prems(2) node by (simp add: route_zoning run_agent_node_def)
  let ?es = "(''Zoning agent error: '' @ exn_str e) # es"
  have "run_graph E capability (Suc budget) k s tr
          = (GraphRecursionError (s\<lparr>st_errors := st_errors s @ ?es\<rparr>), tr')"
    using step ih(1) by simp
  moreover have "length ?es = Suc budget"
    using ih(2) by simp
  moreover have "\<forall>x \<in> set ?es. startswith x ''Zoning agent error: ''"
    using ih(3) by (simp add: startswith_def)
  ultimately show ?case by blast
qed

text \<open>
  C4. A sequential run in which the reasoning capability fails with an \<^verbatim>\<open>Exception\<close> every
  time the zoning node calls it. The router sends the run back to the zoning node after
  each failure, so the run never reaches the synthesizer: for every step budget it ends
  when the budget is used up, with one zoning error note per step, zoning not
  completed and no report. The run does not complete, and the stage is retried.
\<close>

theorem failing_zoning_is_retried_until_the_budget_ends:
  assumes "\<forall>k. \<exists>e. rs_outcome (capability k (zoning_query parcel_id)) = Inl e \<and> is_Exception e"
  shows "\<exists>s' tr'. run_property_analysis E capability budget parcel_id now = (GraphRecursionError s', tr') \<and>
           length (st_errors s') = budget \<and>
           (\<forall>x \<in> set (st_errors s'). startswith x ''Zoning agent error: '') \<and>
           st_completed_agents s' = [] \<and>
           st_final_report s' = None"
proof -
  let ?s = "initial_state parcel_id now"
  have p1: "\<forall>k tr. \<exists>e tr'. invoke_agent E (capability k) (zoning_query (st_parcel_id ?s)) tr = (Inl e, tr')
              \<and> is_Exception e"
  proof (intro allI)
    fix k tr
    from assms obtain e0 where
      e0: "rs_outcome (capability k (zoning_query parcel_id)) = Inl e0" "is_Exception e0"
      by blast
    from invoke_agent_fails [where capability = "capability k" and E = E and tr = tr, OF e0]
    show "\<exists>e tr'. invoke_agent E (capability k) (zoning_query (st_parcel_id ?s)) tr = (Inl e, tr')
             \<and> is_Exception e"
      by (simp add: initial_state_def)
  qed
  have p2: "''zoning'' \<notin> set (st_completed_agents ?s)"
    by (simp add: initial_state_def)
  from run_graph_zoning_loop [where capability = capability and s = ?s and E = E and budget = budget
      and k = 0 and tr = "[]", OF p1 p2] obtain es tr' where
    r: "run_graph E capability budget 0 ?s [] = (GraphRecursionError (?s\<lparr>st_errors := st_errors ?s @ es\<rparr>), tr')"
      "length es = budget" "\<forall>x \<in> set es. startswith x ''Zoning agent error: ''"
    by blast
  let ?s' = "?s\<lparr>st_errors := st_errors ?s @ es\<rparr>"
  have "run_property_analysis E capability budget parcel_id now = (GraphRecursionError ?s', tr')"
    using r(1) by (simp add: run_property_analysis_def)
  moreover have "length (st_errors ?s') = budget"
    using r(2) by (simp add: initial_state_def)
  moreover have "\<forall>x \<in> set (st_errors ?s'). startswith x ''Zoning agent error: ''"
    using r(3) by (simp add: initial_state_def)
  moreover have "st_completed_agents ?s' = []" "st_final_report ?s' = None"
    by (simp_all add: initial_state_def)
  ultimately show ?thesis by blast
qed

theorem failing_zoning_is_retried_witness:
  "\<exists>s' tr'. run_property_analysis demo_env (\<lambda>k. fails) 25 ''2512345'' ''now'' = (GraphRecursionError s', tr') \<and>
      length (st_errors s') = 25 \<and>
      (\<forall>x \<in> set (st_errors s'). startswith x ''Zoning agent error: '') \<and>
      st_completed_agents s' = [] \<and>
      st_final_report s' = None"
proof -
  have "\<forall>k::nat. \<exists>e. rs_outcome (fails (zoning_query ''2512345'')) = Inl e \<and> is_Exception e"
    by (simp add: fails_def)
  from failing_zoning_is_retried_until_the_budget_ends
    [where capability = "\<lambda>k. fails" and parcel_id = "''2512345''" and E = demo_env
       and budget = 25 and now = "''now''"] this
  show ?thesis by simp
qed

section \<open>A failing stage in the two modes\<close>






section \<open>A missing manifest\<close>

text \<open>
  C9. When the manifest file is absent, \<^verbatim>\<open>load_manifest\<close> raises \<^verbatim>\<open>FileNotFoundError\<close> with
  the path in its text, before anything is read. \<^verbatim>\<open>create_agent\<close>, which loads the manifest
  for the system prompt, raises the same exception to its caller, and so does the
  command line of the agent module, which creates the agent outside any \<^verbatim>\<open>try\<close> block:
  the failure ends the program and is recorded nowhere. The cache itself is constructed
  without a manifest and reads nothing; a tool that has to load the manifest for it
  raises the exception as well, because the load precedes the tool's \<^verbatim>\<open>try\<close> block.
\<close>

theorem missing_manifest_propagates:
  "(files E (path_join E skills_path ''skills-manifest.yaml'') = None \<longrightarrow>
      load_manifest E skills_path tr =
        (Inl (Exn FileNotFoundError
           (''Skills manifest not found: '' @ path_join E skills_path ''skills-manifest.yaml'')), tr) \<and>
      create_agent E model skills_path tr =
        (Inl (Exn FileNotFoundError
           (''Skills manifest not found: '' @ path_join E skills_path ''skills-manifest.yaml'')), tr)) \<and>
   (files E (path_join E ''./zonewise/skills'' ''skills-manifest.yaml'') = None \<longrightarrow>
      main_before_loop E tr =
        (Inl (Exn FileNotFoundError
           (''Skills manifest not found: '' @ path_join E ''./zonewise/skills'' ''skills-manifest.yaml'')), tr)) \<and>
   ad_manifest AgentDependencies = None \<and>
   (files E (path_join E (ad_skills_path deps) ''skills-manifest.yaml'') = None \<and>
    ad_manifest deps = None \<and> ad_loaded_skills deps n = None \<and>
    ad_loaded_references deps (n @ '':'' @ ref) = None \<longrightarrow>
      load_skill_tool E n deps tr =
        (Inl (Exn FileNotFoundError
           (''Skills manifest not found: '' @ path_join E (ad_skills_path deps) ''skills-manifest.yaml'')),
         deps, tr) \<and>
      read_reference_tool E n ref deps tr =
        (Inl (Exn FileNotFoundError
           (''Skills manifest not found: '' @ path_join E (ad_skills_path deps) ''skills-manifest.yaml'')),
         deps, tr))"
proof (intro conjI impI)
  assume a: "files E (path_join E skills_path ''skills-manifest.yaml'') = None"
  then show l: "load_manifest E skills_path tr =
        (Inl (Exn FileNotFoundError
           (''Skills manifest not found: '' @ path_join E skills_path ''skills-manifest.yaml'')), tr)"
    by (simp add: load_manifest_def Let_def)
  then show "create_agent E model skills_path tr =
        (Inl (Exn FileNotFoundError
           (''Skills manifest not found: '' @ path_join E skills_path ''skills-manifest.yaml'')), tr)"
    by (simp add: create_agent_def)
next
  assume a: "files E (path_join E ''./zonewise/skills'' ''skills-manifest.yaml'') = None"
  then have "load_manifest E ''./zonewise/skills'' tr =
        (Inl (Exn FileNotFoundError
           (''Skills manifest not found: '' @ path_join E ''./zonewise/skills'' ''skills-manifest.yaml'')), tr)"
    by (simp add: load_manifest_def Let_def)
  then show "main_before_loop E tr =
        (Inl (Exn FileNotFoundError
           (''Skills manifest not found: '' @ path_join E ''./zonewise/skills'' ''skills-manifest.yaml'')), tr)"
    by (simp add: main_before_loop_def create_agent_def)
next
  show "ad_manifest AgentDependencies = None"
    by (simp add: AgentDependencies_def)
next
  assume a: "files E (path_join E (ad_skills_path deps) ''skills-manifest.yaml'') = None \<and>
    ad_manifest deps = None \<and> ad_loaded_skills deps n = None \<and>
    ad_loaded_references deps (n @ '':'' @ ref) = None"
  then have em: "ensure_manifest E deps tr =
        (Inl (Exn FileNotFoundError
           (''Skills manifest not found: '' @ path_join E (ad_skills_path deps) ''skills-manifest.yaml'')), tr)"
    by (simp add: ensure_manifest_def load_manifest_def Let_def)
  show "load_skill_tool E n deps tr =
        (Inl (Exn FileNotFoundError
           (''Skills manifest not found: '' @ path_join E (ad_skills_path deps) ''skills-manifest.yaml'')),
         deps, tr)"
    using a by (simp add: load_skill_tool_def em)
  show "read_reference_tool E n ref deps tr =
        (Inl (Exn FileNotFoundError
           (''Skills manifest not found: '' @ path_join E (ad_skills_path deps) ''skills-manifest.yaml'')),
         deps, tr)"
    using a by (simp add: read_reference_tool_def em Let_def)
qed

theorem missing_manifest_propagates_witness:
  "files bare_env (path_join bare_env ''./zonewise/skills'' ''skills-manifest.yaml'') = None \<and>
   load_manifest bare_env ''./zonewise/skills'' [] =
     (Inl (Exn FileNotFoundError ''Skills manifest not found: zonewise/skills/skills-manifest.yaml''), []) \<and>
   create_agent bare_env ''anthropic:claude-sonnet-4-20250514'' ''./zonewise/skills'' [] =
     (Inl (Exn FileNotFoundError ''Skills manifest not found: zonewise/skills/skills-manifest.yaml''), []) \<and>
   main_before_loop bare_env [] =
     (Inl (Exn FileNotFoundError ''Skills manifest not found: zonewise/skills/skills-manifest.yaml''), []) \<and>
   load_skill_tool bare_env ''zoning-analysis'' AgentDependencies [] =
     (Inl (Exn FileNotFoundError ''Skills manifest not found: zonewise/skills/skills-manifest.yaml''),
      AgentDependencies, []) \<and>
   read_reference_tool bare_env ''zoning-analysis'' ''setbacks.md'' AgentDependencies [] =
     (Inl (Exn FileNotFoundError ''Skills manifest not found: zonewise/skills/skills-manifest.yaml''),
      AgentDependencies, [])"
proof -
  note t = missing_manifest_propagates
    [where E = bare_env and skills_path = "''./zonewise/skills''" and tr = "[]"
       and model = "''anthropic:claude-sonnet-4-20250514''" and deps = AgentDependencies
       and n = "''zoning-analysis''" and ref = "''setbacks.md''"]
  have d: "files bare_env (path_join bare_env (ad_skills_path AgentDependencies) ''skills-manifest.yaml'') = None \<and>
    ad_manifest AgentDependencies = None \<and> ad_loaded_skills AgentDependencies ''zoning-analysis'' = None \<and>
    ad_loaded_references AgentDependencies (''zoning-analysis'' @ '':'' @ ''setbacks.md'') = None"
    by (simp add: AgentDependencies_def bare_env_def)
  have p: "path_join bare_env (ad_skills_path AgentDependencies) ''skills-manifest.yaml''
     = ''zonewise/skills/skills-manifest.yaml''"
    using bare_env_path by (simp add: AgentDependencies_def)
  from t [THEN conjunct1, rule_format, OF bare_env_manifest]
  have a: "load_manifest bare_env ''./zonewise/skills'' [] =
     (Inl (Exn FileNotFoundError ''Skills manifest not found: zonewise/skills/skills-manifest.yaml''), [])"
    and b: "create_agent bare_env ''anthropic:claude-sonnet-4-20250514'' ''./zonewise/skills'' [] =
     (Inl (Exn FileNotFoundError ''Skills manifest not found: zonewise/skills/skills-manifest.yaml''), [])"
    by (simp_all add: bare_env_path)
  from t [THEN conjunct2, THEN conjunct1, rule_format, OF bare_env_manifest]
  have c: "main_before_loop bare_env [] =
     (Inl (Exn FileNotFoundError ''Skills manifest not found: zonewise/skills/skills-manifest.yaml''), [])"
    by (simp add: bare_env_path)
  from t [THEN conjunct2, THEN conjunct2, THEN conjunct2, rule_format, OF d]
  have e: "load_skill_tool bare_env ''zoning-analysis'' AgentDependencies [] =
     (Inl (Exn FileNotFoundError ''Skills manifest not found: zonewise/skills/skills-manifest.yaml''),
      AgentDependencies, [])"
    and f: "read_reference_tool bare_env ''zoning-analysis'' ''setbacks.md'' AgentDependencies [] =
     (Inl (Exn FileNotFoundError ''Skills manifest not found: zonewise/skills/skills-manifest.yaml''),
      AgentDependencies, [])"
    by (simp_all add: p)
  from bare_env_manifest a b c e f show ?thesis by blast
qed

section \<open>The cache of one agent run\<close>

lemma load_manifest_trace:
  "load_manifest E p tr = (r, tr') \<Longrightarrow> tr' = tr \<or> tr' = tr @ [ManifestRead]"
  by (auto simp: load_manifest_def Let_def split: option.splits sum.splits)

lemma ensure_manifest_trace:
  "ensure_manifest E d tr = (r, tr') \<Longrightarrow>
     (tr' = tr \<or> (ad_manifest d = None \<and> tr' = tr @ [ManifestRead]))"
  by (auto simp: ensure_manifest_def split: option.splits dest: load_manifest_trace)

lemma load_skill_content_trace:
  "load_skill_content E p n m tr = (r, tr') \<Longrightarrow> tr' = tr \<or> tr' = tr @ [SkillRead n]"
  by (auto simp: load_skill_content_def Let_def split: option.splits prod.splits sum.splits)

lemma load_reference_content_trace:
  "load_reference_content E p n ref m tr = (r, tr') \<Longrightarrow> tr' = tr \<or> tr' = tr @ [ReferenceRead n ref]"
  by (auto simp: load_reference_content_def Let_def split: option.splits)

text \<open>What one call of \<^verbatim>\<open>load_skill\<close> does to the cache and to the record of retrievals.\<close>

lemma load_skill_tool_effect:
  assumes "load_skill_tool E n d tr = (r, d', tr')"
  shows "(\<exists>sk. ad_loaded_skills d n = Some sk \<and> d' = d \<and> tr' = tr) \<or>
         (ad_loaded_skills d n = None \<and>
          (\<exists>a b. tr' = tr @ a @ b \<and> (a = [] \<or> (ad_manifest d = None \<and> a = [ManifestRead])) \<and>
                 (b = [] \<or> b = [SkillRead n])) \<and>
          ad_loaded_references d' = ad_loaded_references d \<and>
          (ad_manifest d' = ad_manifest d \<or> ad_manifest d = None) \<and>
          (ad_loaded_skills d' = ad_loaded_skills d \<or>
           (\<exists>sk. ad_loaded_skills d' = (ad_loaded_skills d)(n \<mapsto> sk))))"
proof (cases "ad_loaded_skills d n")
  case (Some sk)
  with assms show ?thesis by (simp add: load_skill_tool_def)
next
  case None
  obtain rm tr1 where em: "ensure_manifest E d tr = (rm, tr1)"
    by (cases "ensure_manifest E d tr") auto
  from ensure_manifest_trace [OF em]
  have t1: "tr1 = tr @ [] \<or> (ad_manifest d = None \<and> tr1 = tr @ [ManifestRead])" by simp
  show ?thesis
  proof (cases rm)
    case (Inl e)
    with assms None em have "d' = d" "tr' = tr1" by (simp_all add: load_skill_tool_def)
    with None t1 show ?thesis by force
  next
    case (Inr m)
    have keep: "ad_manifest d = Some m \<or> ad_manifest d = None"
      using em Inr by (auto simp: ensure_manifest_def split: option.splits)
    obtain rc tr2 where lc: "load_skill_content E (ad_skills_path d) n m tr1 = (rc, tr2)"
      by (cases "load_skill_content E (ad_skills_path d) n m tr1") auto
    from load_skill_content_trace [OF lc]
    have t2: "tr2 = tr1 @ [] \<or> tr2 = tr1 @ [SkillRead n]" by simp
    have tr': "tr' = tr2"
      using assms None em Inr lc
      by (auto simp: load_skill_tool_def Let_def split: sum.splits if_splits)
    have d': "d' = d\<lparr>ad_manifest := Some m\<rparr> \<or>
              (\<exists>sk. d' = d\<lparr>ad_manifest := Some m, ad_loaded_skills := (ad_loaded_skills d)(n \<mapsto> sk)\<rparr>)"
      using assms None em Inr lc
      by (auto simp: load_skill_tool_def Let_def split: sum.splits if_splits)
    have tt: "\<exists>a b. tr' = tr @ a @ b \<and> (a = [] \<or> (ad_manifest d = None \<and> a = [ManifestRead])) \<and>
                 (b = [] \<or> b = [SkillRead n])"
      using t1 t2 tr' by (metis append.assoc)
    from d' keep have
      "ad_loaded_references d' = ad_loaded_references d \<and>
       (ad_manifest d' = ad_manifest d \<or> ad_manifest d = None) \<and>
       (ad_loaded_skills d' = ad_loaded_skills d \<or>
         (\<exists>sk. ad_loaded_skills d' = (ad_loaded_skills d)(n \<mapsto> sk)))"
      by auto
    with None tt show ?thesis by blast
  qed
qed

lemma read_reference_tool_effect:
  assumes "read_reference_tool E n ref d tr = (r, d', tr')"
  shows "(\<exists>c. ad_loaded_references d (n @ '':'' @ ref) = Some c \<and> d' = d \<and> tr' = tr) \<or>
         (ad_loaded_references d (n @ '':'' @ ref) = None \<and>
          (\<exists>a b. tr' = tr @ a @ b \<and> (a = [] \<or> (ad_manifest d = None \<and> a = [ManifestRead])) \<and>
                 (b = [] \<or> b = [ReferenceRead n ref])) \<and>
          ad_loaded_skills d' = ad_loaded_skills d \<and>
          (ad_manifest d' = ad_manifest d \<or> ad_manifest d = None) \<and>
          (ad_loaded_references d' = ad_loaded_references d \<or>
           (\<exists>c. ad_loaded_references d' = (ad_loaded_references d)(n @ '':'' @ ref \<mapsto> c))))"
proof (cases "ad_loaded_references d (n @ '':'' @ ref)")
  case (Some c)
  with assms show ?thesis by (simp add: read_reference_tool_def Let_def)
next
  case None
  obtain rm tr1 where em: "ensure_manifest E d tr = (rm, tr1)"
    by (cases "ensure_manifest E d tr") auto
  from ensure_manifest_trace [OF em]
  have t1: "tr1 = tr @ [] \<or> (ad_manifest d = None \<and> tr1 = tr @ [ManifestRead])" by simp
  show ?thesis
  proof (cases rm)
    case (Inl e)
    with assms None em have "d' = d" "tr' = tr1" by (simp_all add: read_reference_tool_def Let_def)
    with None t1 show ?thesis by force
  next
    case (Inr m)
    have keep: "ad_manifest d = Some m \<or> ad_manifest d = None"
      using em Inr by (auto simp: ensure_manifest_def split: option.splits)
    obtain rc tr2 where lc: "load_reference_content E (ad_skills_path d) n ref m tr1 = (rc, tr2)"
      by (cases "load_reference_content E (ad_skills_path d) n ref m tr1") auto
    from load_reference_content_trace [OF lc]
    have t2: "tr2 = tr1 @ [] \<or> tr2 = tr1 @ [ReferenceRead n ref]" by simp
    have tr': "tr' = tr2"
      using assms None em Inr lc
      by (auto simp: read_reference_tool_def Let_def split: sum.splits if_splits)
    have d': "d' = d\<lparr>ad_manifest := Some m\<rparr> \<or>
              (\<exists>c. d' = d\<lparr>ad_manifest := Some m,
                     ad_loaded_references := (ad_loaded_references d)(n @ '':'' @ ref \<mapsto> c)\<rparr>)"
      using assms None em Inr lc
      by (auto simp: read_reference_tool_def Let_def split: sum.splits if_splits)
    have tt: "\<exists>a b. tr' = tr @ a @ b \<and> (a = [] \<or> (ad_manifest d = None \<and> a = [ManifestRead])) \<and>
                 (b = [] \<or> b = [ReferenceRead n ref])"
      using t1 t2 tr' by (metis append.assoc)
    from d' keep have
      "ad_loaded_skills d' = ad_loaded_skills d \<and>
       (ad_manifest d' = ad_manifest d \<or> ad_manifest d = None) \<and>
       (ad_loaded_references d' = ad_loaded_references d \<or>
         (\<exists>c. ad_loaded_references d' = (ad_loaded_references d)(n @ '':'' @ ref \<mapsto> c)))"
      by auto
    with None tt show ?thesis by blast
  qed
qed

text \<open>One tool call keeps what is cached and retrieves none of it again.\<close>

lemma call_tool_keeps_skill:
  assumes "call_tool E c d tr = (r, d', tr')" and "ad_loaded_skills d n = Some sk"
  shows "ad_loaded_skills d' n = Some sk \<and> count_list tr' (SkillRead n) = count_list tr (SkillRead n)"
proof (cases c)
  case (LoadSkill n')
  with assms(1) have "load_skill_tool E n' d tr = (r, d', tr')" by simp
  from load_skill_tool_effect [OF this] assms(2) show ?thesis
    by (elim disjE exE conjE) auto
next
  case (ReadReference n' ref)
  with assms(1) have "read_reference_tool E n' ref d tr = (r, d', tr')" by simp
  from read_reference_tool_effect [OF this] assms(2) show ?thesis
    by (elim disjE exE conjE) auto
qed

lemma call_tool_keeps_reference:
  assumes "call_tool E c d tr = (r, d', tr')" and "ad_loaded_references d (n @ '':'' @ ref) = Some x"
  shows "ad_loaded_references d' (n @ '':'' @ ref) = Some x \<and>
         count_list tr' (ReferenceRead n ref) = count_list tr (ReferenceRead n ref)"
proof (cases c)
  case (LoadSkill n')
  with assms(1) have "load_skill_tool E n' d tr = (r, d', tr')" by simp
  from load_skill_tool_effect [OF this] assms(2) show ?thesis
    by (elim disjE exE conjE) auto
next
  case (ReadReference n' ref')
  with assms(1) have "read_reference_tool E n' ref' d tr = (r, d', tr')" by simp
  from read_reference_tool_effect [OF this] assms(2) show ?thesis
    by (elim disjE exE conjE) auto
qed

lemma call_tool_keeps_manifest:
  assumes "call_tool E c d tr = (r, d', tr')" and "ad_manifest d = Some m"
  shows "ad_manifest d' = Some m \<and> count_list tr' ManifestRead = count_list tr ManifestRead"
proof (cases c)
  case (LoadSkill n')
  with assms(1) have "load_skill_tool E n' d tr = (r, d', tr')" by simp
  from load_skill_tool_effect [OF this] assms(2) show ?thesis
    by (elim disjE exE conjE) auto
next
  case (ReadReference n' ref')
  with assms(1) have "read_reference_tool E n' ref' d tr = (r, d', tr')" by simp
  from read_reference_tool_effect [OF this] assms(2) show ?thesis
    by (elim disjE exE conjE) auto
qed

lemma run_tools_keeps_skill:
  "run_tools E cs d tr = (r, d', tr') \<Longrightarrow> ad_loaded_skills d n = Some sk \<Longrightarrow>
     ad_loaded_skills d' n = Some sk \<and> count_list tr' (SkillRead n) = count_list tr (SkillRead n)"
proof (induction cs arbitrary: d tr)
  case Nil
  then show ?case by simp
next
  case (Cons c cs)
  obtain rc d1 tr1 where c: "call_tool E c d tr = (rc, d1, tr1)"
    by (cases "call_tool E c d tr") auto
  note k = call_tool_keeps_skill [OF c Cons.prems(2)]
  show ?case
  proof (cases rc)
    case (Inl e)
    with c Cons.prems(1) have "d' = d1" "tr' = tr1" by simp_all
    with k show ?thesis by simp
  next
    case (Inr out)
    with c Cons.prems(1) have "run_tools E cs d1 tr1 = (r, d', tr')" by simp
    from Cons.IH [OF this] k show ?thesis by simp
  qed
qed

lemma run_tools_keeps_reference:
  "run_tools E cs d tr = (r, d', tr') \<Longrightarrow> ad_loaded_references d (n @ '':'' @ ref) = Some x \<Longrightarrow>
     ad_loaded_references d' (n @ '':'' @ ref) = Some x \<and>
     count_list tr' (ReferenceRead n ref) = count_list tr (ReferenceRead n ref)"
proof (induction cs arbitrary: d tr)
  case Nil
  then show ?case by simp
next
  case (Cons c cs)
  obtain rc d1 tr1 where c: "call_tool E c d tr = (rc, d1, tr1)"
    by (cases "call_tool E c d tr") auto
  note k = call_tool_keeps_reference [OF c Cons.prems(2)]
  show ?case
  proof (cases rc)
    case (Inl e)
    with c Cons.prems(1) have "d' = d1" "tr' = tr1" by simp_all
    with k show ?thesis by simp
  next
    case (Inr out)
    with c Cons.prems(1) have "run_tools E cs d1 tr1 = (r, d', tr')" by simp
    from Cons.IH [OF this] k show ?thesis by simp
  qed
qed

lemma run_tools_keeps_manifest:
  "run_tools E cs d tr = (r, d', tr') \<Longrightarrow> ad_manifest d = Some m \<Longrightarrow>
     ad_manifest d' = Some m \<and> count_list tr' ManifestRead = count_list tr ManifestRead"
proof (induction cs arbitrary: d tr)
  case Nil
  then show ?case by simp
next
  case (Cons c cs)
  obtain rc d1 tr1 where c: "call_tool E c d tr = (rc, d1, tr1)"
    by (cases "call_tool E c d tr") auto
  note k = call_tool_keeps_manifest [OF c Cons.prems(2)]
  show ?case
  proof (cases rc)
    case (Inl e)
    with c Cons.prems(1) have "d' = d1" "tr' = tr1" by simp_all
    with k show ?thesis by simp
  next
    case (Inr out)
    with c Cons.prems(1) have "run_tools E cs d1 tr1 = (r, d', tr')" by simp
    from Cons.IH [OF this] k show ?thesis by simp
  qed
qed

lemma call_tool_extends:
  assumes "call_tool E c d tr = (r, d', tr')"
  shows "\<exists>new. tr' = tr @ new"
proof (cases c)
  case (LoadSkill n')
  with assms have "load_skill_tool E n' d tr = (r, d', tr')" by simp
  from load_skill_tool_effect [OF this] show ?thesis by auto
next
  case (ReadReference n' ref')
  with assms have "read_reference_tool E n' ref' d tr = (r, d', tr')" by simp
  from read_reference_tool_effect [OF this] show ?thesis by auto
qed

lemma run_tools_extends:
  "run_tools E cs d tr = (r, d', tr') \<Longrightarrow> \<exists>new. tr' = tr @ new"
proof (induction cs arbitrary: d tr)
  case Nil
  then show ?case by simp
next
  case (Cons c cs)
  obtain rc d1 tr1 where c: "call_tool E c d tr = (rc, d1, tr1)"
    by (cases "call_tool E c d tr") auto
  from call_tool_extends [OF c] obtain n1 where n1: "tr1 = tr @ n1" by blast
  show ?case
  proof (cases rc)
    case (Inl e)
    with c Cons.prems have "tr' = tr1" by simp
    with n1 show ?thesis by blast
  next
    case (Inr out)
    with c Cons.prems have "run_tools E cs d1 tr1 = (r, d', tr')" by simp
    from Cons.IH [OF this] obtain n2 where "tr' = tr1 @ n2" by blast
    with n1 show ?thesis by simp
  qed
qed

lemma invoke_agent_reads_manifest:
  assumes "load_manifest E ''./zonewise/skills'' tr = (Inr m, tr1)"
  shows "\<exists>rest. snd (invoke_agent E capability query tr) = tr @ ManifestRead # rest"
proof -
  have tr1: "tr1 = tr @ [ManifestRead]"
    using assms by (auto simp: load_manifest_def Let_def split: option.splits sum.splits)
  show ?thesis
  proof (cases "get_skill_descriptions m")
    case (Inl e)
    with assms have "snd (invoke_agent E capability query tr) = tr1"
      by (simp add: invoke_agent_def create_agent_def)
    with tr1 show ?thesis by simp
  next
    case (Inr d)
    obtain rt d' tr2 where rt:
      "run_tools E (rs_tool_calls (capability query)) AgentDependencies tr1 = (rt, d', tr2)"
      by (cases "run_tools E (rs_tool_calls (capability query)) AgentDependencies tr1") auto
    from run_tools_extends [OF rt] obtain new where new: "tr2 = tr1 @ new" by blast
    have "snd (invoke_agent E capability query tr) = tr2"
      using assms Inr rt
      by (simp add: invoke_agent_def create_agent_def agent_run_def Let_def split: option.splits)
    with tr1 new show ?thesis by simp
  qed
qed

text \<open>
  C6. A first call of \<^verbatim>\<open>load_skill\<close> for a name that is not in the cache, in a state where
  the manifest is available and lists the skill, the skill file exists and its front
  matter parses to a mapping: the call returns the document under the skill heading,
  stores it in the cache under the name, and retrieves the skill file once. A second
  call for the same name on the resulting cache, in any state of the document store and
  with any parser, returns the content of the stored document, the one the first call
  returned, under the \<open>already loaded\<close> heading, retrieves and parses nothing, and leaves
  the cache as it is. The same holds for \<^verbatim>\<open>read_reference\<close>, with the cache slot named by
  the skill name, a colon and the reference name.
\<close>

theorem second_load_is_served_from_the_cache:
  "(ad_loaded_skills deps n = None \<and>
    ensure_manifest E deps tr = (Inr m, trm) \<and>
    find (\<lambda>s. sm_name s = n) (mf_skills m) = Some skill_meta \<and>
    files E (path_join E (path_parent E (ad_skills_path deps)) (sm_path skill_meta)) = Some content \<and>
    parse_front_matter E content = Inr (YMap fm, body)
    \<longrightarrow>
      load_skill_tool E n deps tr =
        (Inr (''# '' @ n @ '' Skill'' @ nl @ nl @ body),
         deps\<lparr>ad_manifest := Some m,
              ad_loaded_skills := (ad_loaded_skills deps)
                (n \<mapsto> \<lparr>ls_name = n, ls_content = body, ls_front_matter = fm\<rparr>)\<rparr>,
         trm @ [SkillRead n]) \<and>
      load_skill_tool E' n
        (deps\<lparr>ad_manifest := Some m,
              ad_loaded_skills := (ad_loaded_skills deps)
                (n \<mapsto> \<lparr>ls_name = n, ls_content = body, ls_front_matter = fm\<rparr>)\<rparr>)
        (trm @ [SkillRead n]) =
        (Inr (''[Skill '' @ apostrophe @ n @ apostrophe @ '' already loaded]'' @ nl @ nl @ body),
         deps\<lparr>ad_manifest := Some m,
              ad_loaded_skills := (ad_loaded_skills deps)
                (n \<mapsto> \<lparr>ls_name = n, ls_content = body, ls_front_matter = fm\<rparr>)\<rparr>,
         trm @ [SkillRead n])) \<and>
   (ad_loaded_references deps (n @ '':'' @ ref) = None \<and>
    ensure_manifest E deps tr = (Inr m, trm) \<and>
    find (\<lambda>s. sm_name s = n) (mf_skills m) = Some skill_meta \<and>
    files E (path_join E
               (path_join E
                  (path_join E (path_parent E (ad_skills_path deps))
                     (replace_all ''/SKILL.md'' [] (sm_path skill_meta)))
                  ''references'')
               ref) = Some words
    \<longrightarrow>
      read_reference_tool E n ref deps tr =
        (Inr (''# Reference: '' @ ref @ nl @ nl @ words),
         deps\<lparr>ad_manifest := Some m,
              ad_loaded_references := (ad_loaded_references deps)
                (n @ '':'' @ ref \<mapsto> \<lparr>sr_name = ref, sr_skill_name = n, sr_content = words\<rparr>)\<rparr>,
         trm @ [ReferenceRead n ref]) \<and>
      read_reference_tool E' n ref
        (deps\<lparr>ad_manifest := Some m,
              ad_loaded_references := (ad_loaded_references deps)
                (n @ '':'' @ ref \<mapsto> \<lparr>sr_name = ref, sr_skill_name = n, sr_content = words\<rparr>)\<rparr>)
        (trm @ [ReferenceRead n ref]) =
        (Inr (''[Reference already loaded]'' @ nl @ nl @ words),
         deps\<lparr>ad_manifest := Some m,
              ad_loaded_references := (ad_loaded_references deps)
                (n @ '':'' @ ref \<mapsto> \<lparr>sr_name = ref, sr_skill_name = n, sr_content = words\<rparr>)\<rparr>,
         trm @ [ReferenceRead n ref]))"
proof (intro conjI impI)
  assume h: "ad_loaded_skills deps n = None \<and>
    ensure_manifest E deps tr = (Inr m, trm) \<and>
    find (\<lambda>s. sm_name s = n) (mf_skills m) = Some skill_meta \<and>
    files E (path_join E (path_parent E (ad_skills_path deps)) (sm_path skill_meta)) = Some content \<and>
    parse_front_matter E content = Inr (YMap fm, body)"
  let ?sk = "\<lparr>ls_name = n, ls_content = body, ls_front_matter = fm\<rparr>"
  have lc: "load_skill_content E (ad_skills_path deps) n m trm = (Inr ?sk, trm @ [SkillRead n])"
    using h by (simp add: load_skill_content_def Let_def)
  show "load_skill_tool E n deps tr =
        (Inr (''# '' @ n @ '' Skill'' @ nl @ nl @ body),
         deps\<lparr>ad_manifest := Some m, ad_loaded_skills := (ad_loaded_skills deps)(n \<mapsto> ?sk)\<rparr>,
         trm @ [SkillRead n])"
    using h lc by (simp add: load_skill_tool_def Let_def)
  show "load_skill_tool E' n
        (deps\<lparr>ad_manifest := Some m, ad_loaded_skills := (ad_loaded_skills deps)(n \<mapsto> ?sk)\<rparr>)
        (trm @ [SkillRead n]) =
        (Inr (''[Skill '' @ apostrophe @ n @ apostrophe @ '' already loaded]'' @ nl @ nl @ body),
         deps\<lparr>ad_manifest := Some m, ad_loaded_skills := (ad_loaded_skills deps)(n \<mapsto> ?sk)\<rparr>,
         trm @ [SkillRead n])"
    by (simp add: load_skill_tool_def)
next
  assume h: "ad_loaded_references deps (n @ '':'' @ ref) = None \<and>
    ensure_manifest E deps tr = (Inr m, trm) \<and>
    find (\<lambda>s. sm_name s = n) (mf_skills m) = Some skill_meta \<and>
    files E (path_join E
               (path_join E
                  (path_join E (path_parent E (ad_skills_path deps))
                     (replace_all ''/SKILL.md'' [] (sm_path skill_meta)))
                  ''references'')
               ref) = Some words"
  let ?doc = "\<lparr>sr_name = ref, sr_skill_name = n, sr_content = words\<rparr>"
  have lc: "load_reference_content E (ad_skills_path deps) n ref m trm
      = (Inr ?doc, trm @ [ReferenceRead n ref])"
    using h by (simp add: load_reference_content_def Let_def)
  show "read_reference_tool E n ref deps tr =
        (Inr (''# Reference: '' @ ref @ nl @ nl @ words),
         deps\<lparr>ad_manifest := Some m,
              ad_loaded_references := (ad_loaded_references deps)(n @ '':'' @ ref \<mapsto> ?doc)\<rparr>,
         trm @ [ReferenceRead n ref])"
    using h lc by (simp add: read_reference_tool_def Let_def)
  show "read_reference_tool E' n ref
        (deps\<lparr>ad_manifest := Some m,
              ad_loaded_references := (ad_loaded_references deps)(n @ '':'' @ ref \<mapsto> ?doc)\<rparr>)
        (trm @ [ReferenceRead n ref]) =
        (Inr (''[Reference already loaded]'' @ nl @ nl @ words),
         deps\<lparr>ad_manifest := Some m,
              ad_loaded_references := (ad_loaded_references deps)(n @ '':'' @ ref \<mapsto> ?doc)\<rparr>,
         trm @ [ReferenceRead n ref])"
    by (simp add: read_reference_tool_def Let_def)
qed

theorem second_load_witness:
  "load_skill_tool demo_env ''zoning-analysis'' AgentDependencies [] =
     (Inr (''# zoning-analysis Skill'' @ nl @ nl @ ''Use the code.''),
      AgentDependencies\<lparr>ad_manifest := Some demo_manifest,
        ad_loaded_skills := [''zoning-analysis'' \<mapsto> demo_loaded]\<rparr>,
      [ManifestRead, SkillRead ''zoning-analysis'']) \<and>
   load_skill_tool bare_env ''zoning-analysis''
     (AgentDependencies\<lparr>ad_manifest := Some demo_manifest,
        ad_loaded_skills := [''zoning-analysis'' \<mapsto> demo_loaded]\<rparr>)
     [ManifestRead, SkillRead ''zoning-analysis''] =
     (Inr (''[Skill '' @ apostrophe @ ''zoning-analysis'' @ apostrophe @ '' already loaded]'' @ nl @ nl
             @ ''Use the code.''),
      AgentDependencies\<lparr>ad_manifest := Some demo_manifest,
        ad_loaded_skills := [''zoning-analysis'' \<mapsto> demo_loaded]\<rparr>,
      [ManifestRead, SkillRead ''zoning-analysis'']) \<and>
   read_reference_tool demo_env ''zoning-analysis'' ''setbacks.md'' AgentDependencies [] =
     (Inr (''# Reference: setbacks.md'' @ nl @ nl @ ''Front 25 ft''),
      AgentDependencies\<lparr>ad_manifest := Some demo_manifest,
        ad_loaded_references := [''zoning-analysis:setbacks.md'' \<mapsto> demo_doc]\<rparr>,
      [ManifestRead, ReferenceRead ''zoning-analysis'' ''setbacks.md'']) \<and>
   read_reference_tool bare_env ''zoning-analysis'' ''setbacks.md''
     (AgentDependencies\<lparr>ad_manifest := Some demo_manifest,
        ad_loaded_references := [''zoning-analysis:setbacks.md'' \<mapsto> demo_doc]\<rparr>)
     [ManifestRead, ReferenceRead ''zoning-analysis'' ''setbacks.md''] =
     (Inr (''[Reference already loaded]'' @ nl @ nl @ ''Front 25 ft''),
      AgentDependencies\<lparr>ad_manifest := Some demo_manifest,
        ad_loaded_references := [''zoning-analysis:setbacks.md'' \<mapsto> demo_doc]\<rparr>,
      [ManifestRead, ReferenceRead ''zoning-analysis'' ''setbacks.md''])"
proof -
  let ?D1 = "AgentDependencies\<lparr>ad_manifest := Some demo_manifest,
        ad_loaded_skills := [''zoning-analysis'' \<mapsto> demo_loaded]\<rparr>"
  let ?D2 = "AgentDependencies\<lparr>ad_manifest := Some demo_manifest,
        ad_loaded_references := [''zoning-analysis:setbacks.md'' \<mapsto> demo_doc]\<rparr>"
  have d: "ad_loaded_skills AgentDependencies = Map.empty"
    "ad_loaded_references AgentDependencies = Map.empty"
    "ad_skills_path AgentDependencies = ''./zonewise/skills''"
    by (simp_all add: AgentDependencies_def)
  have em: "ensure_manifest demo_env AgentDependencies [] = (Inr demo_manifest, [ManifestRead])"
    by (simp add: ensure_manifest_def AgentDependencies_def demo_manifest_loads)
  have h1: "ad_loaded_skills AgentDependencies ''zoning-analysis'' = None \<and>
    ensure_manifest demo_env AgentDependencies [] = (Inr demo_manifest, [ManifestRead]) \<and>
    find (\<lambda>s. sm_name s = ''zoning-analysis'') (mf_skills demo_manifest) = Some demo_skill \<and>
    files demo_env (path_join demo_env (path_parent demo_env (ad_skills_path AgentDependencies))
       (sm_path demo_skill)) = Some ''---name: zoning-analysis---Use the code.'' \<and>
    parse_front_matter demo_env ''---name: zoning-analysis---Use the code.''
      = Inr (YMap [(''name'', YStr ''zoning-analysis'')], ''Use the code.'')"
    by (simp add: d em demo_skill_found demo_skill_path demo_skill_file demo_skill_parses)
  have h2: "ad_loaded_references AgentDependencies (''zoning-analysis'' @ '':'' @ ''setbacks.md'') = None \<and>
    ensure_manifest demo_env AgentDependencies [] = (Inr demo_manifest, [ManifestRead]) \<and>
    find (\<lambda>s. sm_name s = ''zoning-analysis'') (mf_skills demo_manifest) = Some demo_skill \<and>
    files demo_env (path_join demo_env
               (path_join demo_env
                  (path_join demo_env (path_parent demo_env (ad_skills_path AgentDependencies))
                     (replace_all ''/SKILL.md'' [] (sm_path demo_skill)))
                  ''references'')
               ''setbacks.md'') = Some ''Front 25 ft''"
    by (simp add: d em demo_skill_found demo_replace demo_reference_path demo_reference_file)
  note t = second_load_is_served_from_the_cache
    [where E = demo_env and E' = bare_env and n = "''zoning-analysis''" and ref = "''setbacks.md''"
       and deps = AgentDependencies and tr = "[]" and m = demo_manifest and trm = "[ManifestRead]"
       and skill_meta = demo_skill and content = "''---name: zoning-analysis---Use the code.''"
       and fm = "[(''name'', YStr ''zoning-analysis'')]" and body = "''Use the code.''"
       and words = "''Front 25 ft''"]
  from t [THEN conjunct1, rule_format, OF h1]
  have a: "load_skill_tool demo_env ''zoning-analysis'' AgentDependencies [] =
     (Inr (''# zoning-analysis Skill'' @ nl @ nl @ ''Use the code.''), ?D1,
      [ManifestRead, SkillRead ''zoning-analysis''])"
    and c: "load_skill_tool bare_env ''zoning-analysis'' ?D1 [ManifestRead, SkillRead ''zoning-analysis''] =
     (Inr (''[Skill '' @ apostrophe @ ''zoning-analysis'' @ apostrophe @ '' already loaded]'' @ nl @ nl
             @ ''Use the code.''), ?D1, [ManifestRead, SkillRead ''zoning-analysis''])"
    by (simp_all add: d demo_loaded_def)
  from t [THEN conjunct2, rule_format, OF h2]
  have b: "read_reference_tool demo_env ''zoning-analysis'' ''setbacks.md'' AgentDependencies [] =
     (Inr (''# Reference: setbacks.md'' @ nl @ nl @ ''Front 25 ft''), ?D2,
      [ManifestRead, ReferenceRead ''zoning-analysis'' ''setbacks.md''])"
    and e: "read_reference_tool bare_env ''zoning-analysis'' ''setbacks.md'' ?D2
       [ManifestRead, ReferenceRead ''zoning-analysis'' ''setbacks.md''] =
     (Inr (''[Reference already loaded]'' @ nl @ nl @ ''Front 25 ft''), ?D2,
      [ManifestRead, ReferenceRead ''zoning-analysis'' ''setbacks.md''])"
    by (simp_all add: d demo_doc_def)
  from a c b e show ?thesis by blast
qed

section \<open>Caches and stages\<close>

lemma demo_run_loads_skill:
  "\<exists>s. run_graph demo_env (\<lambda>k. loads_skill) (Suc (Suc (Suc (Suc (Suc (Suc n)))))) k
          (initial_state ''2512345'' ''now'') tr =
        (Finished s,
         tr @ [ManifestRead, ManifestRead, SkillRead ''zoning-analysis'',
               ManifestRead, ManifestRead, SkillRead ''zoning-analysis'',
               ManifestRead, ManifestRead, SkillRead ''zoning-analysis'',
               ManifestRead, ManifestRead, SkillRead ''zoning-analysis''])"
  by (simp add: route_to_next_agent_def agent_order_def run_agent_node_def
      zoning_agent_node_def valuation_agent_node_def permit_agent_node_def envelope_agent_node_def
      demo_invoke_loads_skill initial_state_def synthesizer_node_def report_lines_def
      small_int_prints PropertyData_def Let_def del: join.simps show_nat.simps)

text \<open>
  A sequential run in which every stage asks for the same skill. Each node creates its
  own agent and its own empty dependencies, so the manifest is retrieved twice by every
  stage and the skill document once by every stage: four retrievals of one document in
  one run.
\<close>

theorem stages_do_not_share_a_cache_counterexample:
  "is_Finished (fst (run_property_analysis demo_env (\<lambda>k. loads_skill) 25 ''2512345'' ''now'')) \<and>
   snd (run_property_analysis demo_env (\<lambda>k. loads_skill) 25 ''2512345'' ''now'') =
     [ManifestRead, ManifestRead, SkillRead ''zoning-analysis'',
      ManifestRead, ManifestRead, SkillRead ''zoning-analysis'',
      ManifestRead, ManifestRead, SkillRead ''zoning-analysis'',
      ManifestRead, ManifestRead, SkillRead ''zoning-analysis''] \<and>
   count_list (snd (run_property_analysis demo_env (\<lambda>k. loads_skill) 25 ''2512345'' ''now''))
     (SkillRead ''zoning-analysis'') = 4 \<and>
   count_list (snd (run_property_analysis demo_env (\<lambda>k. loads_skill) 25 ''2512345'' ''now''))
     ManifestRead = 8"
proof -
  have n: "(25::nat) = Suc (Suc (Suc (Suc (Suc (Suc 19)))))"
    by simp
  from demo_run_loads_skill [of 19 0 "[]"] obtain s where
    "run_property_analysis demo_env (\<lambda>k. loads_skill) 25 ''2512345'' ''now'' =
        (Finished s,
         [ManifestRead, ManifestRead, SkillRead ''zoning-analysis'',
          ManifestRead, ManifestRead, SkillRead ''zoning-analysis'',
          ManifestRead, ManifestRead, SkillRead ''zoning-analysis'',
          ManifestRead, ManifestRead, SkillRead ''zoning-analysis''])"
    unfolding run_property_analysis_def n by auto
  then show ?thesis by simp
qed

text \<open>
  C5. The cache belongs to one agent run, not to the workflow run. Within one sequence
  of tool calls on the same dependencies, a skill document, a reference document or
  the manifest that is in the cache stays there and is not retrieved again, however
  many calls ask for it. Every agent call of a stage starts from fresh dependencies
  and a new agent, which retrieves the manifest again whenever the manifest loads.
\<close>

theorem cache_lives_for_one_agent_run:
  "(run_tools E calls deps tr = (r, deps', tr') \<longrightarrow>
      (\<forall>n sk. ad_loaded_skills deps n = Some sk \<longrightarrow>
         ad_loaded_skills deps' n = Some sk \<and>
         count_list tr' (SkillRead n) = count_list tr (SkillRead n)) \<and>
      (\<forall>n ref doc. ad_loaded_references deps (n @ '':'' @ ref) = Some doc \<longrightarrow>
         ad_loaded_references deps' (n @ '':'' @ ref) = Some doc \<and>
         count_list tr' (ReferenceRead n ref) = count_list tr (ReferenceRead n ref)) \<and>
      (\<forall>m. ad_manifest deps = Some m \<longrightarrow>
         ad_manifest deps' = Some m \<and>
         count_list tr' ManifestRead = count_list tr ManifestRead)) \<and>
   (load_manifest E ''./zonewise/skills'' tr = (Inr m0, tr0) \<longrightarrow>
      (\<exists>rest. snd (invoke_agent E capability query tr) = tr @ ManifestRead # rest))"
proof (intro conjI impI allI)
  fix n sk
  assume "run_tools E calls deps tr = (r, deps', tr')" "ad_loaded_skills deps n = Some sk"
  from run_tools_keeps_skill [OF this]
  show "ad_loaded_skills deps' n = Some sk"
    and "count_list tr' (SkillRead n) = count_list tr (SkillRead n)"
    by simp_all
next
  fix n ref doc
  assume "run_tools E calls deps tr = (r, deps', tr')"
    "ad_loaded_references deps (n @ '':'' @ ref) = Some doc"
  from run_tools_keeps_reference [OF this]
  show "ad_loaded_references deps' (n @ '':'' @ ref) = Some doc"
    and "count_list tr' (ReferenceRead n ref) = count_list tr (ReferenceRead n ref)"
    by simp_all
next
  fix m
  assume "run_tools E calls deps tr = (r, deps', tr')" "ad_manifest deps = Some m"
  from run_tools_keeps_manifest [OF this]
  show "ad_manifest deps' = Some m"
    and "count_list tr' ManifestRead = count_list tr ManifestRead"
    by simp_all
next
  assume "load_manifest E ''./zonewise/skills'' tr = (Inr m0, tr0)"
  from invoke_agent_reads_manifest [OF this]
  show "\<exists>rest. snd (invoke_agent E capability query tr) = tr @ ManifestRead # rest" .
qed

theorem cache_lives_for_one_agent_run_witness:
  "run_tools demo_env
     [LoadSkill ''zoning-analysis'', ReadReference ''zoning-analysis'' ''setbacks.md'',
      LoadSkill ''zoning-analysis'']
     (AgentDependencies\<lparr>ad_manifest := Some demo_manifest,
        ad_loaded_skills := [''zoning-analysis'' \<mapsto> demo_loaded]\<rparr>)
     [ManifestRead, SkillRead ''zoning-analysis''] =
     (None,
      AgentDependencies\<lparr>ad_manifest := Some demo_manifest,
        ad_loaded_skills := [''zoning-analysis'' \<mapsto> demo_loaded],
        ad_loaded_references := [''zoning-analysis:setbacks.md'' \<mapsto> demo_doc]\<rparr>,
      [ManifestRead, SkillRead ''zoning-analysis'', ReferenceRead ''zoning-analysis'' ''setbacks.md'']) \<and>
   count_list [ManifestRead, SkillRead ''zoning-analysis'', ReferenceRead ''zoning-analysis'' ''setbacks.md'']
     (SkillRead ''zoning-analysis'') = 1 \<and>
   count_list [ManifestRead, SkillRead ''zoning-analysis'', ReferenceRead ''zoning-analysis'' ''setbacks.md'']
     ManifestRead = 1 \<and>
   snd (invoke_agent demo_env loads_skill ''query'' [SkillRead ''zoning-analysis'']) =
     [SkillRead ''zoning-analysis'', ManifestRead, ManifestRead, SkillRead ''zoning-analysis'']"
proof -
  let ?D1 = "AgentDependencies\<lparr>ad_manifest := Some demo_manifest,
        ad_loaded_skills := [''zoning-analysis'' \<mapsto> demo_loaded]\<rparr>"
  let ?D3 = "AgentDependencies\<lparr>ad_manifest := Some demo_manifest,
        ad_loaded_skills := [''zoning-analysis'' \<mapsto> demo_loaded],
        ad_loaded_references := [''zoning-analysis:setbacks.md'' \<mapsto> demo_doc]\<rparr>"
  let ?t1 = "[ManifestRead, SkillRead ''zoning-analysis'']"
  let ?t3 = "[ManifestRead, SkillRead ''zoning-analysis'', ReferenceRead ''zoning-analysis'' ''setbacks.md'']"
  have hit: "\<And>D tr. ad_loaded_skills D ''zoning-analysis'' = Some demo_loaded \<Longrightarrow>
      load_skill_tool demo_env ''zoning-analysis'' D tr =
        (Inr (''[Skill '' @ apostrophe @ ''zoning-analysis'' @ apostrophe @ '' already loaded]'' @ nl @ nl
                @ ls_content demo_loaded), D, tr)"
    by (simp add: load_skill_tool_def)
  have a: "ad_loaded_references ?D1 ''zoning-analysis:setbacks.md'' = None"
    "ad_manifest ?D1 = Some demo_manifest"
    "ad_skills_path (?D1\<lparr>ad_manifest := Some demo_manifest\<rparr>) = ''./zonewise/skills''"
    "?D1\<lparr>ad_manifest := Some demo_manifest\<rparr> = ?D1"
    by (simp_all add: AgentDependencies_def)
  have rd: "read_reference_tool demo_env ''zoning-analysis'' ''setbacks.md'' ?D1 ?t1 =
      (Inr (''# Reference: setbacks.md'' @ nl @ nl @ sr_content demo_doc), ?D3, ?t3)"
    using demo_reference_content [of ?t1]
    by (simp add: read_reference_tool_def ensure_manifest_def a Let_def AgentDependencies_def)
  have run: "run_tools demo_env
     [LoadSkill ''zoning-analysis'', ReadReference ''zoning-analysis'' ''setbacks.md'',
      LoadSkill ''zoning-analysis''] ?D1 ?t1 = (None, ?D3, ?t3)"
    by (simp add: hit rd)
  note t = cache_lives_for_one_agent_run
    [where E = demo_env and deps = ?D1 and tr = ?t1 and deps' = ?D3 and tr' = ?t3 and r = None
       and calls = "[LoadSkill ''zoning-analysis'', ReadReference ''zoning-analysis'' ''setbacks.md'',
                     LoadSkill ''zoning-analysis'']"]
  from t [THEN conjunct1, rule_format, OF run]
  have "count_list ?t3 (SkillRead ''zoning-analysis'') = count_list ?t1 (SkillRead ''zoning-analysis'')"
    and "count_list ?t3 ManifestRead = count_list ?t1 ManifestRead"
    by simp_all
  then have c: "count_list ?t3 (SkillRead ''zoning-analysis'') = 1" "count_list ?t3 ManifestRead = 1"
    by simp_all
  have d: "snd (invoke_agent demo_env loads_skill ''query'' [SkillRead ''zoning-analysis'']) =
     [SkillRead ''zoning-analysis'', ManifestRead, ManifestRead, SkillRead ''zoning-analysis'']"
    by (simp add: demo_invoke_loads_skill)
  from run c d show ?thesis by blast
qed

section \<open>A failed permit stage\<close>

lemma route_permit:
  "''zoning'' \<in> set (st_completed_agents s) \<Longrightarrow> ''valuation'' \<in> set (st_completed_agents s) \<Longrightarrow>
   ''permit'' \<notin> set (st_completed_agents s) \<Longrightarrow> route_to_next_agent s = ''permit''"
  by (simp add: route_to_next_agent_def agent_order_def Let_def)

lemma run_graph_step:
  "route_to_next_agent s = name \<Longrightarrow> name \<noteq> ''end'' \<Longrightarrow> name \<noteq> ''synthesizer'' \<Longrightarrow>
   run_agent_node E (capability k) name s tr = (Inr s1, tr1) \<Longrightarrow>
   run_graph E capability (Suc budget) k s tr = run_graph E capability budget (Suc k) s1 tr1"
  by simp

lemma run_graph_permit_loop:
  assumes "\<forall>j\<ge>k. \<forall>tr. \<exists>e tr'. invoke_agent E (capability j) (permit_query (st_parcel_id s)) tr = (Inl e, tr')
              \<and> is_Exception e"
    and "''zoning'' \<in> set (st_completed_agents s)" "''valuation'' \<in> set (st_completed_agents s)"
    and "''permit'' \<notin> set (st_completed_agents s)"
  shows "\<exists>es tr'. run_graph E capability budget k s tr
            = (GraphRecursionError (s\<lparr>st_errors := st_errors s @ es\<rparr>), tr') \<and>
          length es = budget \<and> (\<forall>x \<in> set es. startswith x ''Permit agent error: '')"
  using assms
proof (induction budget arbitrary: k s tr)
  case 0
  then show ?case by simp
next
  case (Suc budget)
  from Suc.prems(1) obtain e tr1 where
    e: "invoke_agent E (capability k) (permit_query (st_parcel_id s)) tr = (Inl e, tr1)" "is_Exception e"
    by blast
  let ?s1 = "s\<lparr>st_errors := st_errors s @ [''Permit agent error: '' @ exn_str e]\<rparr>"
  from permit_agent_node_failure [where capability = "capability k", OF e]
  have node: "permit_agent_node E (capability k) s tr = (Inr ?s1, tr1)" .
  have p1: "\<forall>j\<ge>Suc k. \<forall>tr. \<exists>e tr'.
      invoke_agent E (capability j) (permit_query (st_parcel_id ?s1)) tr = (Inl e, tr') \<and> is_Exception e"
    using Suc.prems(1) by simp
  have p2: "''zoning'' \<in> set (st_completed_agents ?s1)" "''valuation'' \<in> set (st_completed_agents ?s1)"
    "''permit'' \<notin> set (st_completed_agents ?s1)"
    using Suc.prems(2,3,4) by simp_all
  from Suc.IH [where s = ?s1 and k = "Suc k" and tr = tr1, OF p1 p2] obtain es tr' where
    ih: "run_graph E capability budget (Suc k) ?s1 tr1
           = (GraphRecursionError (?s1\<lparr>st_errors := st_errors ?s1 @ es\<rparr>), tr')"
      "length es = budget" "\<forall>x \<in> set es. startswith x ''Permit agent error: ''"
    by blast
  have r: "route_to_next_agent s = ''permit''"
    using Suc.prems(2,3,4) by (rule route_permit)
  have n: "run_agent_node E (capability k) ''permit'' s tr = (Inr ?s1, tr1)"
    using node by (simp add: run_agent_node_def)
  have step: "run_graph E capability (Suc budget) k s tr = run_graph E capability budget (Suc k) ?s1 tr1"
    by (rule run_graph_step [where capability = capability and k = k, OF r _ _ n]) simp_all
  let ?es = "(''Permit agent error: '' @ exn_str e) # es"
  have "run_graph E capability (Suc budget) k s tr
          = (GraphRecursionError (s\<lparr>st_errors := st_errors s @ ?es\<rparr>), tr')"
    using step ih(1) by simp
  moreover have "length ?es = Suc budget"
    using ih(2) by simp
  moreover have "\<forall>x \<in> set ?es. startswith x ''Permit agent error: ''"
    using ih(3) by (simp add: startswith_def)
  ultimately show ?case by blast
qed

text \<open>
  C10. A sequential run in which the zoning and the valuation stage succeed and the
  reasoning capability fails with an \<^verbatim>\<open>Exception\<close> every time the permit node calls it. The
  permit fields keep their defaults, risk score 0 and no open violation, next to the
  \<open>arv\<close> and \<open>max_bid\<close> that the valuation stage wrote, but the synthesizer is never
  reached: the router sends the run back to the permit node after each failure, and
  for every step budget the run ends when the budget is used up, with zoning and
  valuation completed, one permit error note for every step after the first two, no
  report and no message of the synthesizer. No recommendation is produced.
\<close>

theorem failed_permit_run_yields_no_recommendation:
  assumes "\<forall>tr. \<exists>out tr'. invoke_agent E (capability 0) (zoning_query parcel_id) tr = (Inr out, tr')"
    and "\<forall>tr. \<exists>out tr'. invoke_agent E (capability 1) (valuation_query parcel_id) tr = (Inr out, tr')"
    and "\<forall>k\<ge>2. \<exists>e. rs_outcome (capability k (permit_query parcel_id)) = Inl e \<and> is_Exception e"
  shows "\<exists>s' tr'. run_property_analysis E capability (Suc (Suc n)) parcel_id now = (GraphRecursionError s', tr') \<and>
           st_completed_agents s' = [''zoning'', ''valuation''] \<and>
           pd_arv (st_property_data s') = Some 325000 \<and>
           pd_max_bid (st_property_data s') = Some 165000 \<and>
           pd_permit_risk_score (st_property_data s') = 0 \<and>
           pd_open_violations (st_property_data s') = [] \<and>
           length (st_errors s') = n \<and>
           (\<forall>x \<in> set (st_errors s'). startswith x ''Permit agent error: '') \<and>
           st_final_report s' = None \<and>
           st_messages s' =
             [HumanMessage (''Analyze property: '' @ parcel_id),
              AIMessage (''[Zoning Agent] Analyzed zoning for '' @ parcel_id @ '': '' @ ''RS-10'') ''zoning_agent'',
              AIMessage (''[Valuation Agent] ARV: $'' @ format_comma0 E 325000 @
                         '', Max Bid: $'' @ format_comma0 E 165000) ''valuation_agent'']"
proof -
  let ?s0 = "initial_state parcel_id now"
  define s1 where "s1 = ?s0
     \<lparr>st_property_data := (st_property_data ?s0)
        \<lparr>pd_zoning_district := Some ''RS-10'',
         pd_zoning_dims := Some
           [(''max_height_ft'', 35), (''far'', 35 / 100), (''front_setback_ft'', 25),
            (''side_setback_ft'', 15 / 2), (''rear_setback_ft'', 20)]\<rparr>,
      st_messages := st_messages ?s0 @
        [AIMessage (''[Zoning Agent] Analyzed zoning for '' @ parcel_id @ '': '' @ ''RS-10'') ''zoning_agent''],
      st_completed_agents := st_completed_agents ?s0 @ [''zoning'']\<rparr>"
  define s2 where "s2 = s1
     \<lparr>st_property_data := (st_property_data s1)
        \<lparr>pd_arv := Some 325000,
         pd_max_bid := Some 165000,
         pd_comparable_sales :=
           [[(''address'', PStr ''123 Main St''), (''price'', PNum 310000), (''sqft'', PNum 1450)],
            [(''address'', PStr ''456 Oak Ave''), (''price'', PNum 340000), (''sqft'', PNum 1550)]]\<rparr>,
      st_messages := st_messages s1 @
        [AIMessage (''[Valuation Agent] ARV: $'' @ format_comma0 E 325000 @
                    '', Max Bid: $'' @ format_comma0 E 165000) ''valuation_agent''],
      st_completed_agents := st_completed_agents s1 @ [''valuation'']\<rparr>"
  have f0: "st_parcel_id ?s0 = parcel_id" "st_completed_agents ?s0 = []"
    by (simp_all add: initial_state_def)
  have f1: "st_parcel_id s1 = parcel_id" "st_completed_agents s1 = [''zoning'']"
    by (simp_all add: s1_def initial_state_def)
  have f2: "st_parcel_id s2 = parcel_id" "st_completed_agents s2 = [''zoning'', ''valuation'']"
    "pd_arv (st_property_data s2) = Some 325000" "pd_max_bid (st_property_data s2) = Some 165000"
    "pd_permit_risk_score (st_property_data s2) = 0" "pd_open_violations (st_property_data s2) = []"
    "st_errors s2 = []" "st_final_report s2 = None"
    "st_messages s2 =
       [HumanMessage (''Analyze property: '' @ parcel_id),
        AIMessage (''[Zoning Agent] Analyzed zoning for '' @ parcel_id @ '': '' @ ''RS-10'') ''zoning_agent'',
        AIMessage (''[Valuation Agent] ARV: $'' @ format_comma0 E 325000 @
                   '', Max Bid: $'' @ format_comma0 E 165000) ''valuation_agent'']"
    by (simp_all add: s2_def s1_def initial_state_def PropertyData_def)
  from assms(1) obtain out1 tr1 where
    i1: "invoke_agent E (capability 0) (zoning_query parcel_id) [] = (Inr out1, tr1)"
    by blast
  have n1: "run_agent_node E (capability 0) ''zoning'' ?s0 [] = (Inr s1, tr1)"
    by (simp add: run_agent_node_def zoning_agent_node_def f0 i1 s1_def Let_def)
  have r1: "route_to_next_agent ?s0 = ''zoning''"
    by (rule route_zoning) (simp add: f0)
  have step1: "run_graph E capability (Suc (Suc n)) 0 ?s0 [] = run_graph E capability (Suc n) (Suc 0) s1 tr1"
    by (rule run_graph_step [where capability = capability and k = 0, OF r1 _ _ n1]) simp_all
  from assms(2) have "\<exists>out tr'. invoke_agent E (capability (Suc 0)) (valuation_query parcel_id) tr1 = (Inr out, tr')"
    by simp
  then obtain out2 tr2 where
    i2: "invoke_agent E (capability (Suc 0)) (valuation_query parcel_id) tr1 = (Inr out2, tr2)"
    by blast
  have n2: "run_agent_node E (capability (Suc 0)) ''valuation'' s1 tr1 = (Inr s2, tr2)"
    by (simp add: run_agent_node_def valuation_agent_node_def f1 i2 s2_def Let_def)
  have r2: "route_to_next_agent s1 = ''valuation''"
    by (simp add: route_to_next_agent_def agent_order_def f1 Let_def)
  have step2: "run_graph E capability (Suc n) (Suc 0) s1 tr1 = run_graph E capability n (Suc (Suc 0)) s2 tr2"
    by (rule run_graph_step [where capability = capability and k = "Suc 0", OF r2 _ _ n2]) simp_all
  have p: "\<forall>j\<ge>Suc (Suc 0). \<forall>tr. \<exists>e tr'.
      invoke_agent E (capability j) (permit_query (st_parcel_id s2)) tr = (Inl e, tr') \<and> is_Exception e"
  proof (intro allI impI)
    fix j tr
    assume "Suc (Suc 0) \<le> j"
    then have "2 \<le> j" by simp
    with assms(3) obtain e0 where
      e0: "rs_outcome (capability j (permit_query parcel_id)) = Inl e0" "is_Exception e0"
      by blast
    from invoke_agent_fails [where capability = "capability j" and E = E and tr = tr, OF e0]
    show "\<exists>e tr'. invoke_agent E (capability j) (permit_query (st_parcel_id s2)) tr = (Inl e, tr')
             \<and> is_Exception e"
      by (simp add: f2)
  qed
  have c: "''zoning'' \<in> set (st_completed_agents s2)" "''valuation'' \<in> set (st_completed_agents s2)"
    "''permit'' \<notin> set (st_completed_agents s2)"
    by (simp_all add: f2)
  from run_graph_permit_loop [where capability = capability and s = s2 and E = E and budget = n
      and k = "Suc (Suc 0)" and tr = tr2, OF p c] obtain es tr' where
    r: "run_graph E capability n (Suc (Suc 0)) s2 tr2
          = (GraphRecursionError (s2\<lparr>st_errors := st_errors s2 @ es\<rparr>), tr')"
      "length es = n" "\<forall>x \<in> set es. startswith x ''Permit agent error: ''"
    by blast
  let ?s' = "s2\<lparr>st_errors := st_errors s2 @ es\<rparr>"
  have run: "run_property_analysis E capability (Suc (Suc n)) parcel_id now = (GraphRecursionError ?s', tr')"
    using step1 step2 r(1) by (simp add: run_property_analysis_def)
  have g: "st_completed_agents ?s' = [''zoning'', ''valuation'']"
    "pd_arv (st_property_data ?s') = Some 325000"
    "pd_max_bid (st_property_data ?s') = Some 165000"
    "pd_permit_risk_score (st_property_data ?s') = 0"
    "pd_open_violations (st_property_data ?s') = []"
    "length (st_errors ?s') = n"
    "\<forall>x \<in> set (st_errors ?s'). startswith x ''Permit agent error: ''"
    "st_final_report ?s' = None"
    "st_messages ?s' =
       [HumanMessage (''Analyze property: '' @ parcel_id),
        AIMessage (''[Zoning Agent] Analyzed zoning for '' @ parcel_id @ '': '' @ ''RS-10'') ''zoning_agent'',
        AIMessage (''[Valuation Agent] ARV: $'' @ format_comma0 E 325000 @
                   '', Max Bid: $'' @ format_comma0 E 165000) ''valuation_agent'']"
    using r(2,3) f2 by simp_all
  show ?thesis
    apply (rule exI [of _ ?s'], rule exI [of _ tr'])
    apply (intro conjI)
    apply (fact run g)+
    done
qed

theorem failed_permit_run_witness:
  "\<exists>s' tr'. run_property_analysis demo_env (\<lambda>k. if k < 2 then answers else fails) 25 ''2512345'' ''now''
               = (GraphRecursionError s', tr') \<and>
     st_completed_agents s' = [''zoning'', ''valuation''] \<and>
     pd_arv (st_property_data s') = Some 325000 \<and>
     pd_max_bid (st_property_data s') = Some 165000 \<and>
     pd_permit_risk_score (st_property_data s') = 0 \<and>
     pd_open_violations (st_property_data s') = [] \<and>
     length (st_errors s') = 23 \<and>
     (\<forall>x \<in> set (st_errors s'). startswith x ''Permit agent error: '') \<and>
     st_final_report s' = None"
proof -
  let ?cap = "\<lambda>k::nat. if k < 2 then answers else fails"
  have z: "\<forall>tr. \<exists>out tr'. invoke_agent demo_env (?cap 0) (zoning_query ''2512345'') tr = (Inr out, tr')"
    by (simp add: demo_invoke_answers)
  have v: "\<forall>tr. \<exists>out tr'. invoke_agent demo_env (?cap 1) (valuation_query ''2512345'') tr = (Inr out, tr')"
    by (simp add: demo_invoke_answers)
  have p: "\<forall>k\<ge>2. \<exists>e. rs_outcome (?cap k (permit_query ''2512345'')) = Inl e \<and> is_Exception e"
    by (simp add: fails_def)
  have n: "(25::nat) = Suc (Suc 23)"
    by simp
  from failed_permit_run_yields_no_recommendation
    [where capability = ?cap and E = demo_env and parcel_id = "''2512345''" and n = 23
       and now = "''now''", OF z v p]
  show ?thesis
    unfolding n by blast
qed

end
